theory Spec2Isabelle
  imports Complex_Main
begin

section \<open>Python values, arrays, exceptions and outcomes\<close>

text \<open>
  The two modules \<^verbatim>\<open>create_gradient_image.py\<close> and \<^verbatim>\<open>create_gradient_on_image.py\<close>
  define functions of the same names. The functions of the first module keep their
  names here; those of the second carry the suffix \<open>_on_image\<close>.

  Every function of the source starts with \<^verbatim>\<open>isinstance\<close> checks, so an argument is
  any Python value. A float argument and an element of an array argument are finite
  float64 values, written as the reals they denote; \<open>nan\<close> and infinite arguments are
  not modelled. An operation of float64 arithmetic rounds its exact result to the
  nearest float64, ties to even, and overflows to an infinity; its results are values of
  the type \<open>float64\<close>, which has \<open>nan\<close> and the two infinities. The sign of zero is not
  modelled.
\<close>

datatype direction = FORWARD | REVERSE

datatype 'a ndarray = NDArray (shape: "nat list") (flat: "'a list")

datatype pyval =
    PInt int
  | PFloat real
  | PBool bool
  | PStr string
  | PNone
  | PArray "real ndarray"
  | is_PDirection: PDirection direction

datatype float64 = is_Fin: Fin real | NaN | PosInf | NegInf

datatype exc =
    TypeError string
  | ValueError string
  | RuntimeError string
  | AxisError string
  | OverflowError string

text \<open>
  A call returns a value, raises an exception, or ends the process: \<open>Exited out code\<close>
  is \<^verbatim>\<open>print(out)\<close> followed by \<^verbatim>\<open>sys.exit(code)\<close>.
\<close>

datatype 'a outcome = is_Ok: Ok 'a | is_Raised: Raised exc | is_Exited: Exited string nat

fun and_then :: "'a outcome \<Rightarrow> ('a \<Rightarrow> 'b outcome) \<Rightarrow> 'b outcome" where
  "and_then (Ok v) f = f v"
| "and_then (Raised e) f = Raised e"
| "and_then (Exited out code) f = Exited out code"

text \<open>\<^verbatim>\<open>str(e)\<close>, as the f-strings of the handlers print it.\<close>

fun str_exc :: "exc \<Rightarrow> string" where
  "str_exc (TypeError m) = m"
| "str_exc (ValueError m) = m"
| "str_exc (RuntimeError m) = m"
| "str_exc (AxisError m) = m"
| "str_exc (OverflowError m) = m"

text \<open>
  \<^verbatim>\<open>except Exception as e: raise RuntimeError(f"<prefix>{e}")\<close>, the handler of the first
  module. \<^verbatim>\<open>SystemExit\<close> is no \<^verbatim>\<open>Exception\<close> and passes through.
\<close>

fun reraise_runtime_error :: "string \<Rightarrow> 'a outcome \<Rightarrow> 'a outcome" where
  "reraise_runtime_error prefix (Raised e) = Raised (RuntimeError (prefix @ str_exc e))"
| "reraise_runtime_error prefix r = r"

text \<open>
  \<^verbatim>\<open>except Exception as e: print(f"Exception: {e}"); sys.exit(1)\<close>, the handler of the
  second module.
\<close>

fun print_and_exit :: "'a outcome \<Rightarrow> 'a outcome" where
  "print_and_exit (Raised e) = Exited (''Exception: '' @ str_exc e) 1"
| "print_and_exit r = r"

text \<open>
  \<^verbatim>\<open>isinstance(v, (int, float))\<close> with the value as a number: \<^verbatim>\<open>bool\<close> is a subclass of
  \<^verbatim>\<open>int\<close>. \<open>None\<close> says the check fails.
\<close>

fun as_int_or_float :: "pyval \<Rightarrow> real option" where
  "as_int_or_float (PInt i) = Some (of_int i)"
| "as_int_or_float (PFloat x) = Some x"
| "as_int_or_float (PBool b) = Some (if b then 1 else 0)"
| "as_int_or_float v = None"

text \<open>\<^verbatim>\<open>isinstance(v, int)\<close> with the value.\<close>

fun as_int :: "pyval \<Rightarrow> int option" where
  "as_int (PInt i) = Some i"
| "as_int (PBool b) = Some (if b then 1 else 0)"
| "as_int v = None"

text \<open>\<^verbatim>\<open>isinstance(v, float)\<close> with the value.\<close>

fun as_float :: "pyval \<Rightarrow> real option" where
  "as_float (PFloat x) = Some x"
| "as_float v = None"

text \<open>\<^verbatim>\<open>str(n)\<close> of an integer, as the texts of numpy's exceptions hold it.\<close>

fun show_nat :: "nat \<Rightarrow> string" where
  "show_nat n =
     (if n < 10 then [''0123456789'' ! n]
      else show_nat (n div 10) @ [''0123456789'' ! (n mod 10)])"

definition show_int :: "int \<Rightarrow> string" where
  "show_int i = (if i < 0 then ''-'' @ show_nat (nat (- i)) else show_nat (nat i))"

fun type_name :: "pyval \<Rightarrow> string" where
  "type_name (PInt i) = ''int''"
| "type_name (PFloat x) = ''float''"
| "type_name (PBool b) = ''bool''"
| "type_name (PStr s) = ''str''"
| "type_name PNone = ''NoneType''"
| "type_name (PArray a) = ''numpy.ndarray''"
| "type_name (PDirection d) = ''Direction''"

section \<open>float64 arithmetic\<close>

text \<open>
  Rounding to the nearest integer, ties to the even one.
\<close>

definition round_half_even :: "real \<Rightarrow> int" where
  "round_half_even x =
     (let n = \<lfloor>x\<rfloor>; d = x - of_int n in
      if d < 1 / 2 then n else if 1 / 2 < d then n + 1 else if even n then n else n + 1)"

text \<open>
  The binary exponent of a float64 holding \<open>x\<close>: that of \<open>x\<close>, and \<open>-1022\<close> in the
  subnormal range.
\<close>

definition float64_exponent :: "real \<Rightarrow> int" where
  "float64_exponent x = max \<lfloor>log 2 \<bar>x\<bar>\<rfloor> (- 1022)"

text \<open>
  The multiple of \<open>2 ^ (e - 52)\<close> nearest to \<open>x\<close>, ties to the even multiple: the float64
  that \<open>x\<close> rounds to, when that is finite.
\<close>

definition float64_nearest :: "real \<Rightarrow> real" where
  "float64_nearest x =
     (if x = 0 then 0
      else let u = 2 powi (float64_exponent x - 52) in
           of_int (round_half_even (x / u)) * u)"

text \<open>The float64 result of an operation whose exact result is \<open>x\<close>.\<close>

definition float64_round :: "real \<Rightarrow> float64" where
  "float64_round x =
     (let r = float64_nearest x in
      if 2 ^ 1024 \<le> r then PosInf
      else if r \<le> - (2 ^ 1024) then NegInf
      else Fin r)"

fun float64_less :: "float64 \<Rightarrow> float64 \<Rightarrow> bool" where
  "float64_less NaN b = False"
| "float64_less a NaN = False"
| "float64_less (Fin a) (Fin b) = (a < b)"
| "float64_less (Fin a) PosInf = True"
| "float64_less (Fin a) NegInf = False"
| "float64_less PosInf b = False"
| "float64_less NegInf NegInf = False"
| "float64_less NegInf b = True"

fun float64_add :: "float64 \<Rightarrow> float64 \<Rightarrow> float64" where
  "float64_add NaN b = NaN"
| "float64_add a NaN = NaN"
| "float64_add (Fin a) (Fin b) = float64_round (a + b)"
| "float64_add PosInf NegInf = NaN"
| "float64_add NegInf PosInf = NaN"
| "float64_add PosInf b = PosInf"
| "float64_add NegInf b = NegInf"
| "float64_add (Fin a) PosInf = PosInf"
| "float64_add (Fin a) NegInf = NegInf"

fun float64_square :: "float64 \<Rightarrow> float64" where
  "float64_square (Fin a) = float64_round (a * a)"
| "float64_square NaN = NaN"
| "float64_square PosInf = PosInf"
| "float64_square NegInf = PosInf"

fun float64_sqrt :: "float64 \<Rightarrow> float64" where
  "float64_sqrt (Fin a) = (if a < 0 then NaN else float64_round (sqrt a))"
| "float64_sqrt NaN = NaN"
| "float64_sqrt PosInf = PosInf"
| "float64_sqrt NegInf = NaN"

text \<open>
  Division: a zero divisor raises nothing (numpy only warns), the quotient is \<open>nan\<close> for
  \<open>0 / 0\<close> and for a quotient of infinities, and an infinity for any other \<open>x / 0\<close>.
\<close>

fun float64_divide :: "float64 \<Rightarrow> float64 \<Rightarrow> float64" where
  "float64_divide NaN m = NaN"
| "float64_divide x NaN = NaN"
| "float64_divide (Fin x) (Fin m) =
     (if m \<noteq> 0 then float64_round (x / m)
      else if x = 0 then NaN
      else if x > 0 then PosInf
      else NegInf)"
| "float64_divide (Fin x) PosInf = Fin 0"
| "float64_divide (Fin x) NegInf = Fin 0"
| "float64_divide PosInf (Fin m) = (if m < 0 then NegInf else PosInf)"
| "float64_divide NegInf (Fin m) = (if m < 0 then PosInf else NegInf)"
| "float64_divide PosInf PosInf = NaN"
| "float64_divide PosInf NegInf = NaN"
| "float64_divide NegInf PosInf = NaN"
| "float64_divide NegInf NegInf = NaN"

text \<open>The maximum as \<^verbatim>\<open>np.max\<close> takes it: \<open>nan\<close> wins.\<close>

definition float64_maximum :: "float64 \<Rightarrow> float64 \<Rightarrow> float64" where
  "float64_maximum a b =
     (if a = NaN \<or> b = NaN then NaN else if float64_less a b then b else a)"

text \<open>
  A Python scalar as the float64 that numpy computes with: an int is converted, which
  raises \<^verbatim>\<open>OverflowError\<close> beyond the range of float64; what is no number raises
  \<^verbatim>\<open>TypeError\<close>.
\<close>

fun float_of_scalar :: "pyval \<Rightarrow> real outcome" where
  "float_of_scalar (PInt i) =
     (case float64_round (of_int i) of
        Fin r \<Rightarrow> Ok r
      | _ \<Rightarrow> Raised (OverflowError ''int too large to convert to float''))"
| "float_of_scalar (PFloat x) = Ok x"
| "float_of_scalar (PBool b) = Ok (if b then 1 else 0)"
| "float_of_scalar v = Raised (TypeError ''unsupported operand type(s) for -'')"

section \<open>The numpy functions the code calls\<close>

text \<open>
  numpy is a library outside the repository; its functions are modelled from their
  documentation, on the arguments the code passes. The samples of \<^verbatim>\<open>np.linspace\<close> are
  taken as the exact quotients; the operations on the distance field and \<^verbatim>\<open>1 - a\<close> round
  as float64 does.
\<close>

text \<open>\<^verbatim>\<open>operator.index\<close>, which \<^verbatim>\<open>np.linspace\<close> applies to \<^verbatim>\<open>num\<close>.\<close>

fun operator_index :: "pyval \<Rightarrow> int outcome" where
  "operator_index (PInt i) = Ok i"
| "operator_index (PBool b) = Ok (if b then 1 else 0)"
| "operator_index (PArray a) =
     Raised (TypeError ''only integer scalar arrays can be converted to a scalar index'')"
| "operator_index v =
     Raised (TypeError
       ([CHR 0x27] @ type_name v @ [CHR 0x27] @ '' object cannot be interpreted as an integer''))"

text \<open>
  \<^verbatim>\<open>np.linspace(start, stop, num)\<close> with the endpoint included: \<open>num\<close> samples
  \<open>start + i * step\<close>, the step being \<open>(stop - start) / (num - 1)\<close>. numpy computes no
  step for \<open>num = 1\<close>, where the one sample is \<open>start\<close>; a negative \<open>num\<close> raises.
\<close>

definition np_linspace :: "real \<Rightarrow> real \<Rightarrow> pyval \<Rightarrow> real ndarray outcome" where
  "np_linspace start stop num =
     and_then (operator_index num) (\<lambda>n.
       if n < 0
       then Raised (ValueError
              (''Number of samples, '' @ show_int n @ '', must be non-negative.''))
       else
         let k = nat n; d = k - 1 in
         Ok (NDArray [k]
               (map (\<lambda>i. if d > 0 then start + real i * ((stop - start) / real d) else start)
                    [0..<k])))"

text \<open>
  \<^verbatim>\<open>np.meshgrid(x, y)\<close> of two one-dimensional arrays: both results have shape
  \<open>(len y, len x)\<close>, stored row by row; the first repeats \<open>x\<close> in every row, the second
  holds \<open>y[r]\<close> along row \<open>r\<close>.
\<close>

definition np_meshgrid :: "'a ndarray \<Rightarrow> 'a ndarray \<Rightarrow> 'a ndarray \<times> 'a ndarray" where
  "np_meshgrid x y =
     (let w = length (flat x); h = length (flat y) in
      (NDArray [h, w] (concat (replicate h (flat x))),
       NDArray [h, w] (concat (map (replicate w) (flat y)))))"

text \<open>Elementwise operations.\<close>

definition np_map :: "('a \<Rightarrow> 'b) \<Rightarrow> 'a ndarray \<Rightarrow> 'b ndarray" where
  "np_map f a = NDArray (shape a) (map f (flat a))"

text \<open>\<^verbatim>\<open>a - s\<close> for an array and a Python scalar.\<close>

definition np_subtract_scalar :: "real ndarray \<Rightarrow> pyval \<Rightarrow> float64 ndarray outcome" where
  "np_subtract_scalar a s =
     and_then (float_of_scalar s) (\<lambda>c. Ok (np_map (\<lambda>v. float64_round (v - c)) a))"

text \<open>\<^verbatim>\<open>a ** 2\<close>, which numpy computes as the square.\<close>

definition np_square :: "float64 ndarray \<Rightarrow> float64 ndarray" where
  "np_square a = np_map float64_square a"

text \<open>
  \<^verbatim>\<open>a + b\<close> for two arrays of one shape, element by element; arrays of different
  shapes that do not broadcast raise \<^verbatim>\<open>ValueError\<close>. Broadcasting between different
  shapes is not modelled: the code adds two arrays of one \<^verbatim>\<open>meshgrid\<close> only.
\<close>

definition np_add :: "float64 ndarray \<Rightarrow> float64 ndarray \<Rightarrow> float64 ndarray outcome" where
  "np_add a b =
     (if shape a = shape b then Ok (NDArray (shape a) (map2 float64_add (flat a) (flat b)))
      else Raised (ValueError ''operands could not be broadcast together''))"

text \<open>\<^verbatim>\<open>np.sqrt\<close>.\<close>

definition np_sqrt :: "float64 ndarray \<Rightarrow> float64 ndarray" where
  "np_sqrt a = np_map float64_sqrt a"

text \<open>\<^verbatim>\<open>np.max\<close>: the largest element; an empty array raises \<^verbatim>\<open>ValueError\<close>.\<close>

definition np_max :: "float64 ndarray \<Rightarrow> float64 outcome" where
  "np_max a =
     (case flat a of
        [] \<Rightarrow> Raised (ValueError
                ''zero-size array to reduction operation maximum which has no identity'')
      | v # vs \<Rightarrow> Ok (fold float64_maximum vs v))"

text \<open>\<^verbatim>\<open>a / m\<close> for an array and a float64.\<close>

definition np_divide_scalar :: "float64 ndarray \<Rightarrow> float64 \<Rightarrow> float64 ndarray" where
  "np_divide_scalar a m = np_map (\<lambda>v. float64_divide v m) a"

text \<open>
  \<^verbatim>\<open>1 - a\<close>. The difference of one and a finite float64 is within the range of float64,
  so the rounded result is finite.
\<close>

definition np_one_minus :: "real ndarray \<Rightarrow> real ndarray" where
  "np_one_minus a = np_map (\<lambda>v. float64_nearest (1 - v)) a"

text \<open>
  \<^verbatim>\<open>np.clip(a, lo, hi)\<close>, which is \<^verbatim>\<open>minimum(maximum(a, lo), hi)\<close>; the minimum and the
  maximum of two float64 values need no rounding.
\<close>

definition np_clip :: "real ndarray \<Rightarrow> real \<Rightarrow> real \<Rightarrow> real ndarray" where
  "np_clip a lo hi = np_map (\<lambda>v. min (max v lo) hi) a"

text \<open>
  \<^verbatim>\<open>np.stack(arrays, axis)\<close>: the arrays must have one shape (checked first), then the
  axis must lie in \<open>[-(ndim + 1), ndim + 1)\<close>, a negative one counting from the end. The
  new axis of length \<open>len arrays\<close> is inserted at position \<open>axis\<close>: with \<open>inner\<close> the
  number of elements behind that position and \<open>outer\<close> the number before it, the result
  holds, for each outer index, the block of \<open>inner\<close> elements of every array in turn.
\<close>

definition np_stack :: "'a ndarray list \<Rightarrow> int \<Rightarrow> 'a ndarray outcome" where
  "np_stack arrays axis =
     (case arrays of
        [] \<Rightarrow> Raised (ValueError ''need at least one array to stack'')
      | a # rest \<Rightarrow>
          if \<not> list_all (\<lambda>b. shape b = shape a) rest
          then Raised (ValueError ''all input arrays must have the same shape'')
          else
            let result_ndim = int (length (shape a)) + 1 in
            if axis < - result_ndim \<or> result_ndim \<le> axis
            then Raised (AxisError
                   (''axis '' @ show_int axis @ '' is out of bounds for array of dimension ''
                    @ show_int result_ndim))
            else
              let k = nat (if axis < 0 then axis + result_ndim else axis);
                  outer = prod_list (take k (shape a));
                  inner = prod_list (drop k (shape a))
              in Ok (NDArray (take k (shape a) @ [length arrays] @ drop k (shape a))
                      (concat (map (\<lambda>j. concat (map (\<lambda>b. take inner (drop (j * inner) (flat b)))
                                                  arrays))
                                   [0..<outer]))))"


definition item3 :: "'a ndarray \<Rightarrow> nat \<Rightarrow> nat \<Rightarrow> nat \<Rightarrow> 'a option" where
  "item3 a r c k =
     (case shape a of
        [h, w, d] \<Rightarrow>
          if r < h \<and> c < w \<and> k < d then Some (flat a ! ((r * w + c) * d + k)) else None
      | _ \<Rightarrow> None)"

section \<open>The module create_gradient_image.py\<close>

definition validate_width_and_height :: "pyval \<Rightarrow> pyval \<Rightarrow> unit outcome" where
  "validate_width_and_height width height =
     (case as_int_or_float width of
        None \<Rightarrow> Raised (TypeError ''Expected 'width' to be numeric'')
      | Some w \<Rightarrow>
          (case as_int_or_float height of
             None \<Rightarrow> Raised (TypeError ''Expected 'height' to be numeric'')
           | Some h \<Rightarrow>
               if w \<le> 0 \<or> h \<le> 0 then Raised (ValueError ''Width and height must be positive'')
               else Ok ()))"

definition validate_center_coordinates :: "pyval \<Rightarrow> pyval \<Rightarrow> unit outcome" where
  "validate_center_coordinates center_x center_y =
     (case as_int_or_float center_x of
        None \<Rightarrow> Raised (TypeError ''Expected 'center_x' to be numeric'')
      | Some cx \<Rightarrow>
          (case as_int_or_float center_y of
             None \<Rightarrow> Raised (TypeError ''Expected 'center_y' to be numeric'')
           | Some cy \<Rightarrow> Ok ()))"

fun validate_direction :: "pyval \<Rightarrow> direction outcome" where
  "validate_direction (PDirection d) = Ok d"
| "validate_direction v = Raised (TypeError ''Expected 'direction' to be Direction enum'')"

fun validate_gradient_array :: "pyval \<Rightarrow> real ndarray outcome" where
  "validate_gradient_array (PArray a) = Ok a"
| "validate_gradient_array v = Raised (TypeError ''Expected 'gradient' to be numpy array'')"

definition create_coordinate_grids :: "pyval \<Rightarrow> pyval \<Rightarrow> (real ndarray \<times> real ndarray) outcome" where
  "create_coordinate_grids width height =
     and_then (validate_width_and_height width height) (\<lambda>_.
     and_then (np_linspace 0 1 width) (\<lambda>x.
     and_then (np_linspace 0 1 height) (\<lambda>y.
     Ok (np_meshgrid x y))))"

definition create_black_to_white_gradient :: "pyval \<Rightarrow> pyval \<Rightarrow> real ndarray outcome" where
  "create_black_to_white_gradient width height =
     and_then (validate_width_and_height width height) (\<lambda>_.
     and_then (create_coordinate_grids width height) (\<lambda>(X, Y).
     Ok X))"

definition create_linear_gradients :: "pyval \<Rightarrow> pyval \<Rightarrow> (real ndarray \<times> real ndarray) outcome" where
  "create_linear_gradients width height =
     and_then (validate_width_and_height width height) (\<lambda>_.
     and_then (create_coordinate_grids width height) (\<lambda>(X, Y).
     Ok (X, Y)))"

text \<open>
  \<^verbatim>\<open>np.sqrt((X - center_x)**2 + (Y - center_y)**2)\<close>, the distance field of both
  modules.
\<close>

definition distance_field :: "real ndarray \<Rightarrow> real ndarray \<Rightarrow> pyval \<Rightarrow> pyval \<Rightarrow> float64 ndarray outcome" where
  "distance_field X Y center_x center_y =
     and_then (np_subtract_scalar X center_x) (\<lambda>dx.
     and_then (np_subtract_scalar Y center_y) (\<lambda>dy.
     and_then (np_add (np_square dx) (np_square dy)) (\<lambda>s.
     Ok (np_sqrt s))))"

definition create_radial_gradient :: "pyval \<Rightarrow> pyval \<Rightarrow> pyval \<Rightarrow> pyval \<Rightarrow> float64 ndarray outcome" where
  "create_radial_gradient width height center_x center_y =
     and_then (validate_width_and_height width height) (\<lambda>_.
     and_then (validate_center_coordinates center_x center_y) (\<lambda>_.
     reraise_runtime_error ''Error creating radial gradient: ''
       (and_then (create_coordinate_grids width height) (\<lambda>(X, Y).
        and_then (distance_field X Y center_x center_y) (\<lambda>radial.
        and_then (np_max radial) (\<lambda>m.
        if float64_less (Fin 0) m
        then and_then (np_max radial) (\<lambda>m'. Ok (np_divide_scalar radial m'))
        else Ok radial))))))"

definition apply_direction_to_gradient :: "pyval \<Rightarrow> pyval \<Rightarrow> real ndarray outcome" where
  "apply_direction_to_gradient gradient direction =
     and_then (validate_gradient_array gradient) (\<lambda>g.
     and_then (validate_direction direction) (\<lambda>d.
     if d = REVERSE then Ok (np_one_minus g) else Ok g))"

definition create_rgb_combination :: "pyval \<Rightarrow> pyval \<Rightarrow> pyval \<Rightarrow> real ndarray outcome" where
  "create_rgb_combination red green blue =
     and_then (validate_gradient_array red) (\<lambda>r.
     and_then (validate_gradient_array green) (\<lambda>g.
     and_then (validate_gradient_array blue) (\<lambda>b.
     reraise_runtime_error ''Error combining RGB channels: ''
       (and_then (np_stack [r, g, b] (- 1)) (\<lambda>rgb_image.
        Ok (np_clip rgb_image 0 1))))))"

section \<open>The module create_gradient_on_image.py\<close>

definition create_coordinate_grids_on_image :: "pyval \<Rightarrow> pyval \<Rightarrow> (real ndarray \<times> real ndarray) outcome" where
  "create_coordinate_grids_on_image width height =
     (if as_int width = None then Raised (TypeError ''Expected 'width' to be an integer'')
      else if as_int height = None then Raised (TypeError ''Expected 'height' to be an integer'')
      else print_and_exit
        (and_then (np_linspace 0 1 width) (\<lambda>x.
         and_then (np_linspace 0 1 height) (\<lambda>y.
         Ok (np_meshgrid x y)))))"

definition create_black_to_white_gradient_on_image :: "pyval \<Rightarrow> pyval \<Rightarrow> real ndarray outcome" where
  "create_black_to_white_gradient_on_image width height =
     (if as_int width = None then Raised (TypeError ''Expected 'width' to be an integer'')
      else if as_int height = None then Raised (TypeError ''Expected 'height' to be an integer'')
      else print_and_exit
        (and_then (create_coordinate_grids_on_image width height) (\<lambda>(X, Y).
         Ok X)))"

definition create_linear_gradients_on_image :: "pyval \<Rightarrow> pyval \<Rightarrow> (real ndarray \<times> real ndarray) outcome" where
  "create_linear_gradients_on_image width height =
     (if as_int width = None then Raised (TypeError ''Expected 'width' to be an integer'')
      else if as_int height = None then Raised (TypeError ''Expected 'height' to be an integer'')
      else print_and_exit
        (and_then (create_coordinate_grids_on_image width height) (\<lambda>(X, Y).
         Ok (X, Y))))"

definition create_radial_gradient_on_image :: "pyval \<Rightarrow> pyval \<Rightarrow> pyval \<Rightarrow> pyval \<Rightarrow> float64 ndarray outcome" where
  "create_radial_gradient_on_image width height center_x center_y =
     (if as_int width = None then Raised (TypeError ''Expected 'width' to be an integer'')
      else if as_int height = None then Raised (TypeError ''Expected 'height' to be an integer'')
      else if as_float center_x = None then Raised (TypeError ''Expected 'center_x' to be an float'')
      else if as_float center_y = None then Raised (TypeError ''Expected 'center_y' to be an float'')
      else print_and_exit
        (and_then (create_coordinate_grids_on_image width height) (\<lambda>(X, Y).
         and_then (distance_field X Y center_x center_y) (\<lambda>radial.
         and_then (np_max radial) (\<lambda>m.
         Ok (np_divide_scalar radial m))))))"

definition apply_direction_to_gradient_on_image :: "pyval \<Rightarrow> pyval \<Rightarrow> real ndarray outcome" where
  "apply_direction_to_gradient_on_image gradient direction =
     (case gradient of
        PArray g \<Rightarrow>
          (case direction of
             PDirection d \<Rightarrow> print_and_exit (if d = REVERSE then Ok (np_one_minus g) else Ok g)
           | _ \<Rightarrow> Raised (TypeError ''Expected 'direction' to be an Direction (declared enum)''))
      | _ \<Rightarrow> Raised (TypeError ''Expected 'gradient' to be an ndarray''))"

definition create_directional_gradients_on_image :: "pyval \<Rightarrow> pyval \<Rightarrow> pyval \<Rightarrow> pyval \<Rightarrow> (real ndarray \<times> real ndarray) outcome" where
  "create_directional_gradients_on_image direction_x direction_y width height =
     (if as_int width = None then Raised (TypeError ''Expected 'width' to be an integer'')
      else if as_int height = None then Raised (TypeError ''Expected 'height' to be an integer'')
      else if \<not> is_PDirection direction_x
        then Raised (TypeError ''Expected 'direction_x' to be an Direction (declared enum)'')
      else if \<not> is_PDirection direction_y
        then Raised (TypeError ''Expected 'direction_x' to be an Direction (declared enum)'')
      else print_and_exit
        (and_then (create_linear_gradients_on_image width height) (\<lambda>(linear_x, linear_y).
         and_then (apply_direction_to_gradient_on_image (PArray linear_x) direction_x) (\<lambda>linear_x'.
         and_then (apply_direction_to_gradient_on_image (PArray linear_y) direction_y) (\<lambda>linear_y'.
         Ok (linear_x', linear_y'))))))"

definition create_rgb_combination_on_image :: "pyval \<Rightarrow> pyval \<Rightarrow> pyval \<Rightarrow> real ndarray outcome" where
  "create_rgb_combination_on_image red_grad green_grad blue_grad =
     (case red_grad of
        PArray r \<Rightarrow>
          (case green_grad of
             PArray g \<Rightarrow>
               (case blue_grad of
                  PArray b \<Rightarrow> print_and_exit (np_stack [r, g, b] 2)
                | _ \<Rightarrow> Raised (TypeError ''Expected 'blue_grad' to be an ndarray''))
           | _ \<Rightarrow> Raised (TypeError ''Expected 'green_grad' to be an ndarray''))
      | _ \<Rightarrow> Raised (TypeError ''Expected 'red_grad' to be an ndarray''))"

section \<open>Closed forms and properties used in the statements\<close>

text \<open>The samples of \<^verbatim>\<open>np.linspace(0, 1, n)\<close>.\<close>

definition unit_samples :: "int \<Rightarrow> real list" where
  "unit_samples n = map (\<lambda>i. if 1 < n then real i / real_of_int (n - 1) else 0) [0..<nat n]"

text \<open>The two grids of \<^verbatim>\<open>np.meshgrid\<close> over these samples.\<close>

definition grid_X :: "int \<Rightarrow> int \<Rightarrow> real ndarray" where
  "grid_X w h = NDArray [nat h, nat w] (concat (replicate (nat h) (unit_samples w)))"

definition grid_Y :: "int \<Rightarrow> int \<Rightarrow> real ndarray" where
  "grid_Y w h = NDArray [nat h, nat w] (concat (map (replicate (nat w)) (unit_samples h)))"

text \<open>
  The float64 distance of the grid point \<open>(xv, yv)\<close> from the center \<open>(x, y)\<close>, each
  operation rounded, when nothing overflows.
\<close>

definition point_distance :: "real \<Rightarrow> real \<Rightarrow> real \<Rightarrow> real \<Rightarrow> real" where
  "point_distance x y xv yv =
     float64_nearest (sqrt (float64_nearest
       (float64_nearest (float64_nearest (xv - x) * float64_nearest (xv - x))
        + float64_nearest (float64_nearest (yv - y) * float64_nearest (yv - y)))))"

text \<open>The distances of the grid points from the center \<open>(x, y)\<close>, row by row.\<close>

definition distances :: "int \<Rightarrow> int \<Rightarrow> real \<Rightarrow> real \<Rightarrow> real list" where
  "distances w h x y = map2 (point_distance x y) (flat (grid_X w h)) (flat (grid_Y w h))"

text \<open>
  What a call of \<^verbatim>\<open>create_gradient_on_image.py\<close> can do: return, raise \<^verbatim>\<open>TypeError\<close>,
  or print a line that starts with \<^verbatim>\<open>Exception: \<close> and exit with status one.
\<close>

definition returns_raises_TypeError_or_exits :: "'a outcome \<Rightarrow> bool" where
  "returns_raises_TypeError_or_exits r =
     (case r of
        Ok v \<Rightarrow> True
      | Raised e \<Rightarrow> (case e of TypeError m \<Rightarrow> True | _ \<Rightarrow> False)
      | Exited out code \<Rightarrow> code = 1 \<and> take 11 out = ''Exception: '')"

section \<open>Lemmas on float64 rounding\<close>

lemma round_half_even_of_int [simp]: "round_half_even (of_int n) = n"
  by (simp add: round_half_even_def)

lemma round_half_even_ge_floor: "\<lfloor>x\<rfloor> \<le> round_half_even x"
  by (simp add: round_half_even_def Let_def)

lemma round_half_even_le_floor: "round_half_even x \<le> \<lfloor>x\<rfloor> + 1"
  by (simp add: round_half_even_def Let_def)

lemma round_half_even_mono:
  assumes "x \<le> y"
  shows "round_half_even x \<le> round_half_even y"
proof (cases "\<lfloor>x\<rfloor> = \<lfloor>y\<rfloor>")
  case True
  then show ?thesis using assms by (auto simp: round_half_even_def Let_def)
next
  case False
  with assms have "\<lfloor>x\<rfloor> < \<lfloor>y\<rfloor>" by (simp add: floor_mono order_less_le)
  then have "round_half_even x \<le> \<lfloor>y\<rfloor>" using round_half_even_le_floor[of x] by linarith
  then show ?thesis using round_half_even_ge_floor[of y] by linarith
qed

lemma round_half_even_minus: "round_half_even (- x) = - round_half_even x"
proof (cases "x \<in> \<int>")
  case True
  then obtain n where "x = of_int n" by (auto elim: Ints_cases)
  then show ?thesis
    by (metis of_int_minus round_half_even_of_int)
next
  case False
  then have "x \<noteq> of_int \<lfloor>x\<rfloor>" by (metis Ints_of_int)
  then have fl: "\<lfloor>- x\<rfloor> = - \<lfloor>x\<rfloor> - 1"
    by (simp add: floor_minus ceiling_altdef)
  show ?thesis
    unfolding round_half_even_def Let_def fl
    by (auto simp: algebra_simps)
qed

lemma round_half_even_error: "\<bar>of_int (round_half_even x) - x\<bar> \<le> 1 / 2"
proof -
  have "of_int \<lfloor>x\<rfloor> \<le> x" "x < of_int \<lfloor>x\<rfloor> + 1" by linarith+
  then show ?thesis
    unfolding round_half_even_def Let_def by (auto simp: abs_le_iff) 
qed

lemma round_half_even_0 [simp]: "round_half_even 0 = 0"
  using round_half_even_of_int[of 0] by simp

lemma round_half_even_nonneg: "0 \<le> x \<Longrightarrow> 0 \<le> round_half_even x"
  using round_half_even_mono[of 0 x] by simp

lemma floor_log2_iff:
  assumes "0 < x"
  shows "(\<lfloor>log 2 x\<rfloor> = k) = (2 powi k \<le> x \<and> x < 2 powi (k + 1))"
proof -
  have a: "(2::real) powr real_of_int k = 2 powi k"
    by (rule powr_real_of_int') simp_all
  have b: "(2::real) powr real_of_int (k + 1) = 2 powi (k + 1)"
    by (rule powr_real_of_int') simp_all
  show ?thesis
    using floor_log_eq_powr_iff[of x 2 k] assms unfolding a b by simp
qed

lemma float64_exponent_eqI:
  assumes "- 1022 \<le> e" and "2 powi e \<le> \<bar>x\<bar>" and "\<bar>x\<bar> < 2 powi (e + 1)"
  shows "float64_exponent x = e"
proof -
  have pos: "0 < \<bar>x\<bar>" using assms(2) zero_less_power_int[of "2::real" e] by linarith
  have "\<lfloor>log 2 \<bar>x\<bar>\<rfloor> = e"
    using assms(2,3) pos by (simp add: floor_log2_iff)
  then show ?thesis using assms(1) by (simp add: float64_exponent_def)
qed

lemma float64_exponent_ge: "- 1022 \<le> float64_exponent x"
  by (simp add: float64_exponent_def)

lemma float64_exponent_upper:
  assumes "x \<noteq> 0"
  shows "\<bar>x\<bar> < 2 powi (float64_exponent x + 1)"
proof -
  let ?k = "\<lfloor>log 2 \<bar>x\<bar>\<rfloor>"
  have pos: "0 < \<bar>x\<bar>" using assms by simp
  have "\<bar>x\<bar> < 2 powi (?k + 1)"
    using floor_log2_iff[of "\<bar>x\<bar>" ?k] pos by simp
  also have "\<dots> \<le> 2 powi (float64_exponent x + 1)"
    by (intro power_int_increasing) (simp_all add: float64_exponent_def)
  finally show ?thesis .
qed

lemma float64_exponent_lower:
  assumes "x \<noteq> 0" and "- 1022 < float64_exponent x"
  shows "2 powi float64_exponent x \<le> \<bar>x\<bar>"
proof -
  let ?k = "\<lfloor>log 2 \<bar>x\<bar>\<rfloor>"
  have pos: "0 < \<bar>x\<bar>" using assms by simp
  have "float64_exponent x = ?k" using assms(2) by (simp add: float64_exponent_def max_def split: if_splits)
  moreover have "2 powi ?k \<le> \<bar>x\<bar>"
    using floor_log2_iff[of "\<bar>x\<bar>" ?k] pos by simp
  ultimately show ?thesis by simp
qed

lemma float64_exponent_minus [simp]: "float64_exponent (- x) = float64_exponent x"
  by (simp add: float64_exponent_def)

lemma float64_nearest_minus: "float64_nearest (- x) = - float64_nearest x"
  by (simp add: float64_nearest_def Let_def round_half_even_minus)

lemma float64_nearest_nonneg: "0 \<le> x \<Longrightarrow> 0 \<le> float64_nearest x"
  by (simp add: float64_nearest_def Let_def round_half_even_nonneg)

lemma float64_nearest_pos_upper:
  assumes "0 < x"
  shows "float64_nearest x \<le> 2 powi (float64_exponent x + 1)"
proof -
  let ?e = "float64_exponent x"
  let ?u = "(2::real) powi (?e - 52)"
  have u: "0 < ?u" by (simp add: zero_less_power_int)
  have "x < 2 powi (?e + 1)" using float64_exponent_upper[of x] assms by simp
  also have "(2::real) powi (?e + 1) = 2 ^ 53 * ?u"
    using power_int_add[of "2::real" 53 "?e - 52"] by (simp add: add.commute)
  finally have "x / ?u \<le> 2 ^ 53" using u by (simp add: pos_divide_le_eq)
  then have "round_half_even (x / ?u) \<le> round_half_even (of_int (2 ^ 53))"
    by (intro round_half_even_mono) simp
  then have "round_half_even (x / ?u) \<le> 2 ^ 53" by (simp only: round_half_even_of_int)
  then have "of_int (round_half_even (x / ?u)) \<le> (2::real) ^ 53"
    by (metis of_int_le_iff of_int_numeral of_int_power)
  then have "of_int (round_half_even (x / ?u)) * ?u \<le> 2 ^ 53 * ?u"
    using u by (simp add: mult_right_mono)
  also have "(2::real) ^ 53 * ?u = 2 powi (?e + 1)"
    using power_int_add[of "2::real" 53 "?e - 52"] by (simp add: add.commute)
  finally show ?thesis using assms by (simp add: float64_nearest_def Let_def)
qed

lemma float64_nearest_pos_lower:
  assumes "0 < x" and "- 1022 < float64_exponent x"
  shows "2 powi float64_exponent x \<le> float64_nearest x"
proof -
  let ?e = "float64_exponent x"
  let ?u = "(2::real) powi (?e - 52)"
  have u: "0 < ?u" by (simp add: zero_less_power_int)
  have eq: "(2::real) powi ?e = 2 ^ 52 * ?u"
    using power_int_add[of "2::real" 52 "?e - 52"] by simp
  have "2 powi ?e \<le> x" using float64_exponent_lower[of x] assms by simp
  then have "2 ^ 52 \<le> x / ?u" using u by (simp add: eq pos_le_divide_eq)
  then have "round_half_even (of_int (2 ^ 52)) \<le> round_half_even (x / ?u)"
    by (intro round_half_even_mono) simp
  then have "2 ^ 52 \<le> round_half_even (x / ?u)" by (simp only: round_half_even_of_int)
  then have "(2::real) ^ 52 \<le> of_int (round_half_even (x / ?u))"
    by (metis of_int_le_iff of_int_numeral of_int_power)
  then have "2 ^ 52 * ?u \<le> of_int (round_half_even (x / ?u)) * ?u"
    using u by (simp add: mult_right_mono)
  then show ?thesis using assms by (simp add: float64_nearest_def Let_def eq)
qed

lemma float64_exponent_mono:
  assumes "0 < x" and "x \<le> y"
  shows "float64_exponent x \<le> float64_exponent y"
proof -
  have "log 2 \<bar>x\<bar> \<le> log 2 \<bar>y\<bar>" using assms by simp
  then have "\<lfloor>log 2 \<bar>x\<bar>\<rfloor> \<le> \<lfloor>log 2 \<bar>y\<bar>\<rfloor>" by (rule floor_mono)
  then show ?thesis by (simp add: float64_exponent_def)
qed

lemma float64_nearest_mono_pos:
  assumes "0 < x" and "x \<le> y"
  shows "float64_nearest x \<le> float64_nearest y"
proof (cases "float64_exponent x = float64_exponent y")
  case True
  let ?u = "(2::real) powi (float64_exponent y - 52)"
  have u: "0 < ?u" by (simp add: zero_less_power_int)
  have "x / ?u \<le> y / ?u" using assms u by (simp add: divide_right_mono)
  then have "round_half_even (x / ?u) \<le> round_half_even (y / ?u)"
    by (rule round_half_even_mono)
  then have "of_int (round_half_even (x / ?u)) * ?u \<le> of_int (round_half_even (y / ?u)) * ?u"
    using u by (simp add: mult_right_mono)
  then show ?thesis using assms True by (simp add: float64_nearest_def Let_def)
next
  case False
  with float64_exponent_mono[OF assms] have lt: "float64_exponent x < float64_exponent y"
    by simp
  have y: "0 < y" using assms by simp
  have "float64_nearest x \<le> 2 powi (float64_exponent x + 1)"
    using assms(1) by (rule float64_nearest_pos_upper)
  also have "\<dots> \<le> 2 powi float64_exponent y"
    using lt by (intro power_int_increasing) simp_all
  also have "\<dots> \<le> float64_nearest y"
    using y lt float64_exponent_ge[of x] by (intro float64_nearest_pos_lower) simp_all
  finally show ?thesis .
qed

lemma float64_nearest_0 [simp]: "float64_nearest 0 = 0"
  by (simp add: float64_nearest_def)

lemma float64_nearest_mono:
  assumes "x \<le> y"
  shows "float64_nearest x \<le> float64_nearest y"
proof -
  consider "0 < x" | "x \<le> 0" "0 \<le> y" | "y < 0" by linarith
  then show ?thesis
  proof cases
    case 1
    then show ?thesis using assms by (rule float64_nearest_mono_pos)
  next
    case 2
    have "0 \<le> float64_nearest (- x)" using 2 by (intro float64_nearest_nonneg) simp
    then have "float64_nearest x \<le> 0" by (simp add: float64_nearest_minus)
    also have "0 \<le> float64_nearest y" using 2 by (intro float64_nearest_nonneg)
    finally show ?thesis .
  next
    case 3
    then have "float64_nearest (- y) \<le> float64_nearest (- x)"
      using assms by (intro float64_nearest_mono_pos) simp_all
    then show ?thesis by (simp add: float64_nearest_minus)
  qed
qed

lemma float64_nearest_power_int:
  assumes "- 1022 \<le> k"
  shows "float64_nearest (2 powi k) = 2 powi k"
proof -
  have pos: "(0::real) < 2 powi k" by (simp add: zero_less_power_int)
  have e: "float64_exponent (2 powi k) = k"
    using assms pos by (intro float64_exponent_eqI) (simp_all add: power_int_strict_increasing)
  let ?u = "(2::real) powi (k - 52)"
  have u: "0 < ?u" by (simp add: zero_less_power_int)
  have eq: "(2::real) powi k = 2 ^ 52 * ?u"
    using power_int_add[of "2::real" 52 "k - 52"] by simp
  have "2 powi k / ?u = 2 ^ 52" using u by (simp add: eq)
  also have "\<dots> = of_int (2 ^ 52)" by simp
  finally have "round_half_even (2 powi k / ?u) = 2 ^ 52"
    by (simp only: round_half_even_of_int)
  then have r: "of_int (round_half_even (2 powi k / ?u)) = (2::real) ^ 52"
    by simp
  have "float64_nearest (2 powi k) = of_int (round_half_even (2 powi k / ?u)) * ?u"
    using pos by (simp add: float64_nearest_def e Let_def)
  also have "\<dots> = 2 ^ 52 * ?u" by (simp only: r)
  also have "\<dots> = 2 powi k" by (simp only: eq)
  finally show ?thesis .
qed

lemma float64_nearest_1 [simp]: "float64_nearest 1 = 1"
  using float64_nearest_power_int[of 0] by simp

lemma float64_nearest_le_power_int:
  assumes "x \<le> 2 powi k" and "- 1022 \<le> k"
  shows "float64_nearest x \<le> 2 powi k"
  using float64_nearest_mono[OF assms(1)] float64_nearest_power_int[OF assms(2)] by simp

lemma float64_nearest_ge_power_int:
  assumes "2 powi k \<le> x" and "- 1022 \<le> k"
  shows "2 powi k \<le> float64_nearest x"
  using float64_nearest_mono[OF assms(1)] float64_nearest_power_int[OF assms(2)] by simp

lemma float64_nearest_abs_le_power_int:
  assumes "\<bar>x\<bar> \<le> 2 powi k" and "- 1022 \<le> k"
  shows "\<bar>float64_nearest x\<bar> \<le> 2 powi k"
proof -
  have "float64_nearest x \<le> 2 powi k"
    using assms by (intro float64_nearest_le_power_int) simp_all
  moreover have "float64_nearest (- x) \<le> 2 powi k"
    using assms by (intro float64_nearest_le_power_int) simp_all
  ultimately show ?thesis by (simp add: float64_nearest_minus abs_le_iff)
qed

lemma float64_nearest_unit_interval:
  assumes "0 \<le> x" and "x \<le> 1"
  shows "0 \<le> float64_nearest x" and "float64_nearest x \<le> 1"
  using float64_nearest_mono[OF assms(1)] float64_nearest_mono[OF assms(2)] by simp_all

lemma float64_nearest_error_unit_interval:
  assumes "0 \<le> x" and "x \<le> 1"
  shows "\<bar>float64_nearest x - x\<bar> \<le> 1 / 2 ^ 54"
proof -
  consider "x = 0" | "x = 1" | "0 < x" "x < 1" using assms by linarith
  then show ?thesis
  proof cases
    case 1 then show ?thesis by simp
  next
    case 2 then show ?thesis by simp
  next
    case 3
    let ?e = "float64_exponent x"
    let ?u = "(2::real) powi (?e - 52)"
    have u: "0 < ?u" by (simp add: zero_less_power_int)
    have "log 2 \<bar>x\<bar> < 0" using 3 by simp
    then have "\<lfloor>log 2 \<bar>x\<bar>\<rfloor> \<le> - 1" by (simp add: floor_le_iff)
    then have e: "?e \<le> - 1" by (simp add: float64_exponent_def)
    have "?u \<le> 2 powi (- 53)" using e by (intro power_int_increasing) simp_all
    then have ule: "?u \<le> 1 / 2 ^ 53" by simp
    have "\<bar>of_int (round_half_even (x / ?u)) - x / ?u\<bar> \<le> 1 / 2"
      by (rule round_half_even_error)
    then have "\<bar>of_int (round_half_even (x / ?u)) - x / ?u\<bar> * ?u \<le> 1 / 2 * ?u"
      using u by (intro mult_right_mono) simp_all
    moreover have "\<bar>of_int (round_half_even (x / ?u)) - x / ?u\<bar> * ?u
                   = \<bar>of_int (round_half_even (x / ?u)) * ?u - x\<bar>"
    proof -
      have "(of_int (round_half_even (x / ?u)) - x / ?u) * ?u
              = of_int (round_half_even (x / ?u)) * ?u - x"
        using u by (simp add: left_diff_distrib)
      then have "\<bar>of_int (round_half_even (x / ?u)) * ?u - x\<bar>
              = \<bar>of_int (round_half_even (x / ?u)) - x / ?u\<bar> * \<bar>?u\<bar>"
        by (simp only: abs_mult[symmetric])
      then show ?thesis using u by simp
    qed
    ultimately have "\<bar>of_int (round_half_even (x / ?u)) * ?u - x\<bar> \<le> 1 / 2 * ?u" by simp
    also have "\<dots> \<le> 1 / 2 * (1 / 2 ^ 53)" using ule by simp
    finally show ?thesis using 3 by (simp add: float64_nearest_def Let_def)
  qed
qed

lemma float64_round_Fin:
  assumes "\<bar>x\<bar> \<le> 2 powi k" and "- 1022 \<le> k" and "k \<le> 1023"
  shows "float64_round x = Fin (float64_nearest x)"
proof -
  have "\<bar>float64_nearest x\<bar> \<le> 2 powi k"
    using assms(1,2) by (rule float64_nearest_abs_le_power_int)
  also have "(2::real) powi k \<le> 2 powi 1023"
    using assms(3) by (intro power_int_increasing) simp_all
  also have "(2::real) powi 1023 < 2 ^ 1024" by simp
  finally have "\<bar>float64_nearest x\<bar> < 2 ^ 1024" .
  then show ?thesis by (simp add: float64_round_def Let_def abs_less_iff)
qed

lemma float64_round_overflow:
  assumes "2 ^ 1024 \<le> x"
  shows "float64_round x = PosInf"
proof -
  have "(2::real) powi 1024 \<le> x" using assms by simp
  then have "2 powi 1024 \<le> float64_nearest x"
    by (intro float64_nearest_ge_power_int) simp_all
  then show ?thesis by (simp add: float64_round_def Let_def)
qed

lemma float64_round_0 [simp]: "float64_round 0 = Fin 0"
  by (simp add: float64_round_def)

lemma float64_round_1 [simp]: "float64_round 1 = Fin 1"
  by (simp add: float64_round_def)

lemma float64_round_unit_interval:
  assumes "0 \<le> x" and "x \<le> 1"
  shows "float64_round x = Fin (float64_nearest x)"
  using float64_round_Fin[of x 0] assms by simp

lemma float64_round_Fin_nat:
  assumes "\<bar>x\<bar> \<le> 2 ^ n" and "n \<le> 1023"
  shows "float64_round x = Fin (float64_nearest x)" and "\<bar>float64_nearest x\<bar> \<le> 2 ^ n"
proof -
  have p: "(2::real) powi int n = 2 ^ n" by simp
  show "float64_round x = Fin (float64_nearest x)"
    using float64_round_Fin[of x "int n"] assms by (simp add: p)
  show "\<bar>float64_nearest x\<bar> \<le> 2 ^ n"
    using float64_nearest_abs_le_power_int[of x "int n"] assms by (simp add: p)
qed

lemma float64_nearest_abs_ge_power_int:
  assumes "2 powi k \<le> \<bar>x\<bar>" and "- 1022 \<le> k"
  shows "2 powi k \<le> \<bar>float64_nearest x\<bar>"
proof (cases "0 \<le> x")
  case True
  then have "2 powi k \<le> float64_nearest x"
    using assms by (intro float64_nearest_ge_power_int) simp_all
  then show ?thesis by simp
next
  case False
  then have "2 powi k \<le> float64_nearest (- x)"
    using assms by (intro float64_nearest_ge_power_int) simp_all
  then show ?thesis by (simp add: float64_nearest_minus)
qed

lemma float64_nearest_abs_ge_half:
  assumes "1 / 2 \<le> \<bar>x\<bar>"
  shows "1 / 2 \<le> \<bar>float64_nearest x\<bar>"
  using float64_nearest_abs_ge_power_int[of "- 1" x] assms by simp

lemma float64_nearest_ge_quarter:
  assumes "1 / 4 \<le> x"
  shows "1 / 4 \<le> float64_nearest x"
  using float64_nearest_ge_power_int[of "- 2" x] assms by simp

lemma float64_nearest_ge_half:
  assumes "1 / 2 \<le> x"
  shows "1 / 2 \<le> float64_nearest x"
  using float64_nearest_ge_power_int[of "- 1" x] assms by simp

text \<open>One point of the distance field, when the center is within \<open>2 ^ 510\<close>.\<close>

lemma point_distance_float64:
  assumes xv: "0 \<le> xv" "xv \<le> 1" and yv: "0 \<le> yv" "yv \<le> 1"
    and x: "\<bar>x\<bar> \<le> 2 ^ 510" and y: "\<bar>y\<bar> \<le> 2 ^ 510"
  shows "float64_sqrt (float64_add (float64_square (float64_round (xv - x)))
                                   (float64_square (float64_round (yv - y))))
           = Fin (point_distance x y xv yv)"
proof -
  define a where "a = float64_nearest (xv - x)"
  define b where "b = float64_nearest (yv - y)"
  define sa where "sa = float64_nearest (a * a)"
  define sb where "sb = float64_nearest (b * b)"
  define s where "s = float64_nearest (sa + sb)"
  have "\<bar>xv - x\<bar> \<le> 2 ^ 511" using xv x by (simp add: abs_le_iff)
  from float64_round_Fin_nat[OF this]
  have ra: "float64_round (xv - x) = Fin a" and a: "\<bar>a\<bar> \<le> 2 ^ 511" by (simp_all add: a_def)
  have "\<bar>yv - y\<bar> \<le> 2 ^ 511" using yv y by (simp add: abs_le_iff)
  from float64_round_Fin_nat[OF this]
  have rb: "float64_round (yv - y) = Fin b" and b: "\<bar>b\<bar> \<le> 2 ^ 511" by (simp_all add: b_def)
  have "\<bar>a\<bar> * \<bar>a\<bar> \<le> 2 ^ 511 * 2 ^ 511" using a by (intro mult_mono) simp_all
  then have aa: "\<bar>a * a\<bar> \<le> 2 ^ 1022" by (simp add: abs_mult)
  from float64_round_Fin_nat[OF this]
  have rsa: "float64_round (a * a) = Fin sa" and sa: "\<bar>sa\<bar> \<le> 2 ^ 1022" by (simp_all add: sa_def)
  have "\<bar>b\<bar> * \<bar>b\<bar> \<le> 2 ^ 511 * 2 ^ 511" using b by (intro mult_mono) simp_all
  then have bb: "\<bar>b * b\<bar> \<le> 2 ^ 1022" by (simp add: abs_mult)
  from float64_round_Fin_nat[OF this]
  have rsb: "float64_round (b * b) = Fin sb" and sb: "\<bar>sb\<bar> \<le> 2 ^ 1022" by (simp_all add: sb_def)
  have "\<bar>sa + sb\<bar> \<le> 2 ^ 1023" using sa sb by (simp add: abs_le_iff)
  from float64_round_Fin_nat[OF this]
  have rs: "float64_round (sa + sb) = Fin s" and s: "\<bar>s\<bar> \<le> 2 ^ 1023" by (simp_all add: s_def)
  have sa0: "0 \<le> sa" unfolding sa_def by (intro float64_nearest_nonneg) simp
  have sb0: "0 \<le> sb" unfolding sb_def by (intro float64_nearest_nonneg) simp
  have s0: "0 \<le> s" unfolding s_def using sa0 sb0 by (intro float64_nearest_nonneg) simp
  have "sqrt s \<le> 2 ^ 512" using s by (intro real_le_lsqrt) simp_all
  then have "\<bar>sqrt s\<bar> \<le> 2 ^ 512" using s0 by simp
  from float64_round_Fin_nat[OF this]
  have rq: "float64_round (sqrt s) = Fin (float64_nearest (sqrt s))" by simp
  have "point_distance x y xv yv = float64_nearest (sqrt s)"
    by (simp add: point_distance_def s_def sa_def sb_def a_def b_def)
  then show ?thesis using s0 by (simp add: ra rb rsa rsb rs rq)
qed

lemma point_distance_nonneg: "0 \<le> point_distance x y xv yv"
  unfolding point_distance_def
  by (intro float64_nearest_nonneg real_sqrt_ge_zero add_nonneg_nonneg) simp_all

lemma point_distance_ge_half:
  assumes "1 / 2 \<le> \<bar>xv - x\<bar> \<or> 1 / 2 \<le> \<bar>yv - y\<bar>"
  shows "1 / 2 \<le> point_distance x y xv yv"
proof -
  define a where "a = float64_nearest (xv - x)"
  define b where "b = float64_nearest (yv - y)"
  define sa where "sa = float64_nearest (a * a)"
  define sb where "sb = float64_nearest (b * b)"
  define s where "s = float64_nearest (sa + sb)"
  have sa0: "0 \<le> sa" unfolding sa_def by (intro float64_nearest_nonneg) simp
  have sb0: "0 \<le> sb" unfolding sb_def by (intro float64_nearest_nonneg) simp
  have sq: "1 / 4 \<le> float64_nearest (c * c)" if "1 / 2 \<le> \<bar>c\<bar>" for c :: real
  proof -
    have "1 / 2 * (1 / 2) \<le> \<bar>c\<bar> * \<bar>c\<bar>" using that by (intro mult_mono) simp_all
    then have "1 / 4 \<le> c * c" by (simp add: abs_mult_self_eq)
    then show ?thesis by (rule float64_nearest_ge_quarter)
  qed
  have "1 / 4 \<le> sa + sb"
  proof (rule disjE[OF assms])
    assume "1 / 2 \<le> \<bar>xv - x\<bar>"
    then have "1 / 2 \<le> \<bar>a\<bar>" unfolding a_def by (rule float64_nearest_abs_ge_half)
    then have "1 / 4 \<le> sa" unfolding sa_def by (rule sq)
    then show ?thesis using sb0 by simp
  next
    assume "1 / 2 \<le> \<bar>yv - y\<bar>"
    then have "1 / 2 \<le> \<bar>b\<bar>" unfolding b_def by (rule float64_nearest_abs_ge_half)
    then have "1 / 4 \<le> sb" unfolding sb_def by (rule sq)
    then show ?thesis using sa0 by simp
  qed
  then have "1 / 4 \<le> s" unfolding s_def by (rule float64_nearest_ge_quarter)
  then have "1 / 2 \<le> sqrt s" by (intro real_le_rsqrt) (simp add: power2_eq_square)
  then have "1 / 2 \<le> float64_nearest (sqrt s)" by (rule float64_nearest_ge_half)
  then show ?thesis by (simp add: point_distance_def s_def sa_def sb_def a_def b_def)
qed

lemma float64_square_round_overflow:
  assumes "2 ^ 512 \<le> \<bar>x\<bar>"
  shows "float64_square (float64_round x) = PosInf"
proof -
  let ?r = "float64_nearest x"
  have "(2::real) powi 512 \<le> \<bar>x\<bar>" using assms by simp
  then have "2 powi 512 \<le> \<bar>?r\<bar>" by (intro float64_nearest_abs_ge_power_int) simp_all
  then have r: "2 ^ 512 \<le> \<bar>?r\<bar>" by simp
  have "(2::real) ^ 512 * 2 ^ 512 \<le> \<bar>?r\<bar> * \<bar>?r\<bar>" using r by (intro mult_mono) simp_all
  then have "(2::real) ^ 1024 \<le> ?r * ?r" by (simp add: abs_mult_self_eq)
  then have "float64_round (?r * ?r) = PosInf" by (rule float64_round_overflow)
  then show ?thesis by (simp add: float64_round_def Let_def)
qed

lemma float_of_scalar_numeric:
  "float_of_scalar c = Ok x \<Longrightarrow> as_int_or_float c \<noteq> None"
  by (cases c) simp_all

text \<open>Reversing a value of the unit interval twice.\<close>

lemma one_minus_twice_error:
  assumes "0 \<le> v" and "v \<le> 1"
  shows "\<bar>float64_nearest (1 - float64_nearest (1 - v)) - v\<bar> \<le> 1 / 2 ^ 53"
proof -
  let ?a = "float64_nearest (1 - v)"
  let ?b = "float64_nearest (1 - ?a)"
  have u: "0 \<le> 1 - v" "1 - v \<le> 1" using assms by simp_all
  have a: "0 \<le> ?a" "?a \<le> 1" using u by (rule float64_nearest_unit_interval)+
  have ea: "\<bar>?a - (1 - v)\<bar> \<le> 1 / 2 ^ 54"
    using u by (rule float64_nearest_error_unit_interval)
  have u': "0 \<le> 1 - ?a" "1 - ?a \<le> 1" using a by simp_all
  have eb: "\<bar>?b - (1 - ?a)\<bar> \<le> 1 / 2 ^ 54"
    using u' by (rule float64_nearest_error_unit_interval)
  have "\<bar>?b - v\<bar> \<le> \<bar>?b - (1 - ?a)\<bar> + \<bar>?a - (1 - v)\<bar>" by linarith
  also have "\<dots> \<le> 1 / 2 ^ 54 + 1 / 2 ^ 54" using ea eb by (rule add_mono[rotated])
  also have "\<dots> = 1 / 2 ^ 53" by simp
  finally show ?thesis .
qed

lemma float64_nearest_below_one: "float64_nearest (1 - 1 / 2 ^ 60) = 1"
proof -
  let ?x = "1 - 1 / 2 ^ 60 :: real"
  have e: "float64_exponent ?x = - 1"
    by (rule float64_exponent_eqI) simp_all
  show ?thesis
    using e by (simp add: float64_nearest_def round_half_even_def)
qed

section \<open>Lemmas on lists, grids and distances\<close>

lemma nth_concat_replicate:
  "r < h \<Longrightarrow> c < length xs \<Longrightarrow> concat (replicate h xs) ! (r * length xs + c) = xs ! c"
proof (induction h arbitrary: r)
  case 0
  then show ?case by simp
next
  case (Suc h)
  show ?case
  proof (cases r)
    case 0
    with Suc.prems show ?thesis by (simp add: nth_append)
  next
    case (Suc r')
    with Suc.prems Suc.IH[of r'] show ?thesis by (simp add: nth_append)
  qed
qed

lemma nth_concat_map_replicate:
  "r < length ys \<Longrightarrow> c < w \<Longrightarrow> concat (map (replicate w) ys) ! (r * w + c) = ys ! r"
proof (induction ys arbitrary: r)
  case Nil
  then show ?case by simp
next
  case (Cons y ys)
  show ?case
  proof (cases r)
    case 0
    with Cons.prems show ?thesis by (simp add: nth_append)
  next
    case (Suc r')
    with Cons.prems Cons.IH[of r'] show ?thesis by (simp add: nth_append)
  qed
qed

lemma length_concat_replicate: "length (concat (replicate h xs)) = h * length xs"
  by (induction h) simp_all

lemma length_concat_map_replicate: "length (concat (map (replicate w) ys)) = length ys * w"
  by (induction ys) simp_all

lemma length_unit_samples [simp]: "length (unit_samples n) = nat n"
  by (simp add: unit_samples_def)

lemma nth_unit_samples:
  "i < nat n \<Longrightarrow> unit_samples n ! i = (if 1 < n then real i / real_of_int (n - 1) else 0)"
  by (simp add: unit_samples_def)

lemma np_linspace_PInt:
  "0 \<le> n \<Longrightarrow> np_linspace 0 1 (PInt n) = Ok (NDArray [nat n] (unit_samples n))"
  by (auto simp: np_linspace_def Let_def of_nat_diff unit_samples_def)

lemma create_coordinate_grids_PInt:
  "0 < w \<Longrightarrow> 0 < h \<Longrightarrow> create_coordinate_grids (PInt w) (PInt h) = Ok (grid_X w h, grid_Y w h)"
  by (simp add: create_coordinate_grids_def validate_width_and_height_def np_linspace_PInt
      np_meshgrid_def grid_X_def grid_Y_def Let_def)

lemma create_coordinate_grids_on_image_PInt:
  "0 \<le> w \<Longrightarrow> 0 \<le> h \<Longrightarrow>
   create_coordinate_grids_on_image (PInt w) (PInt h) = Ok (grid_X w h, grid_Y w h)"
  by (simp add: create_coordinate_grids_on_image_def np_linspace_PInt
      np_meshgrid_def grid_X_def grid_Y_def Let_def)



lemma unit_samples_range:
  assumes "v \<in> set (unit_samples n)"
  shows "0 \<le> v" and "v \<le> 1"
proof -
  have "v \<in> (\<lambda>i. if 1 < n then real i / real_of_int (n - 1) else 0) ` {0..<nat n}"
    using assms by (simp add: unit_samples_def)
  then obtain i where "i \<in> {0..<nat n}"
    and v: "v = (if 1 < n then real i / real_of_int (n - 1) else 0)"
    by (rule imageE)
  then have i: "i < nat n" by simp
  show "0 \<le> v" using v by simp
  show "v \<le> 1"
  proof (cases "1 < n")
    case True
    then have "real i \<le> real_of_int (n - 1)" using i by linarith
    then show ?thesis using v True by (simp add: divide_le_eq_1)
  next
    case False
    then show ?thesis using v by simp
  qed
qed

lemma grid_X_range:
  assumes "v \<in> set (flat (grid_X w h))"
  shows "0 \<le> v" and "v \<le> 1"
  using assms unit_samples_range[of v w] by (auto simp: grid_X_def split: if_splits)

lemma grid_Y_range:
  assumes "v \<in> set (flat (grid_Y w h))"
  shows "0 \<le> v" and "v \<le> 1"
  using assms unit_samples_range[of v h] by (auto simp: grid_Y_def)

lemma length_grid_X: "length (flat (grid_X w h)) = nat h * nat w"
  by (simp add: grid_X_def length_concat_replicate)

lemma length_grid_Y: "length (flat (grid_Y w h)) = nat h * nat w"
  by (simp add: grid_Y_def length_concat_map_replicate)

lemma distance_field_grid:
  assumes cx: "float_of_scalar cx = Ok x" and cy: "float_of_scalar cy = Ok y"
    and x: "\<bar>x\<bar> \<le> 2 ^ 510" and y: "\<bar>y\<bar> \<le> 2 ^ 510"
  shows "distance_field (grid_X w h) (grid_Y w h) cx cy
           = Ok (NDArray [nat h, nat w] (map Fin (distances w h x y)))"
proof -
  let ?Xs = "flat (grid_X w h)" and ?Ys = "flat (grid_Y w h)"
  have pt: "float64_sqrt (float64_add (float64_square (float64_round (a - x)))
                                       (float64_square (float64_round (b - y))))
              = Fin (point_distance x y a b)"
    if "(a, b) \<in> set (zip ?Xs ?Ys)" for a b
  proof -
    from that have "a \<in> set ?Xs" "b \<in> set ?Ys"
      by (auto dest: set_zip_leftD set_zip_rightD)
    then show ?thesis
      using grid_X_range[of a w h] grid_Y_range[of b w h] x y
      by (intro point_distance_float64) simp_all
  qed
  have "map float64_sqrt
          (map2 float64_add (map float64_square (map (\<lambda>v. float64_round (v - x)) ?Xs))
                            (map float64_square (map (\<lambda>v. float64_round (v - y)) ?Ys)))
        = map (\<lambda>(a, b). float64_sqrt (float64_add (float64_square (float64_round (a - x)))
                                                  (float64_square (float64_round (b - y)))))
            (zip ?Xs ?Ys)"
    by (simp add: zip_map_map case_prod_unfold)
  also have "\<dots> = map (\<lambda>(a, b). Fin (point_distance x y a b)) (zip ?Xs ?Ys)"
    using pt by (intro map_cong) auto
  also have "\<dots> = map Fin (distances w h x y)"
    by (simp add: distances_def case_prod_unfold)
  finally have m: "map float64_sqrt
          (map2 float64_add (map float64_square (map (\<lambda>v. float64_round (v - x)) ?Xs))
                            (map float64_square (map (\<lambda>v. float64_round (v - y)) ?Ys)))
        = map Fin (distances w h x y)" .
  have sh: "shape (grid_X w h) = [nat h, nat w]" "shape (grid_Y w h) = [nat h, nat w]"
    by (simp_all add: grid_X_def grid_Y_def)
  show ?thesis
    using m by (simp add: distance_field_def np_subtract_scalar_def cx cy np_map_def
        np_square_def np_add_def np_sqrt_def sh)
qed

lemma length_distances: "length (distances w h x y) = nat h * nat w"
  by (simp add: distances_def length_grid_X length_grid_Y)

lemma distances_nonempty: "0 < w \<Longrightarrow> 0 < h \<Longrightarrow> distances w h x y \<noteq> []"
  using length_distances[of w h x y] by auto

lemma nth_distances:
  assumes "r < nat h" and "c < nat w"
  shows "distances w h x y ! (r * nat w + c)
           = point_distance x y (unit_samples w ! c) (unit_samples h ! r)"
proof -
  have lt: "r * nat w + c < nat h * nat w"
  proof -
    have "r * nat w + c < r * nat w + nat w" using assms by simp
    also have "\<dots> = Suc r * nat w" by simp
    also have "\<dots> \<le> nat h * nat w" using assms by (intro mult_le_mono1) simp
    finally show ?thesis .
  qed
  have X: "flat (grid_X w h) ! (r * nat w + c) = unit_samples w ! c"
    using nth_concat_replicate[of r "nat h" c "unit_samples w"] assms by (simp add: grid_X_def)
  have Y: "flat (grid_Y w h) ! (r * nat w + c) = unit_samples h ! r"
    using nth_concat_map_replicate[of r "unit_samples h" c "nat w"] assms by (simp add: grid_Y_def)
  show ?thesis
    using lt by (simp add: distances_def length_grid_X length_grid_Y X Y)
qed

lemma distances_nonneg: "d \<in> set (distances w h x y) \<Longrightarrow> 0 \<le> d"
  by (auto simp: distances_def point_distance_nonneg)

text \<open>A grid of more than one point has a point at least one half away from the center.\<close>

lemma distances_positive:
  assumes "0 < w" and "0 < h" and "1 < w \<or> 1 < h"
  shows "\<exists>d \<in> set (distances w h x y). 0 < d"
proof -
  have far: "\<exists>d \<in> set (distances w h x y). 1 / 2 \<le> d"
    if r: "r < nat h" and c: "c < nat w"
      and away: "1 / 2 \<le> \<bar>unit_samples w ! c - x\<bar> \<or> 1 / 2 \<le> \<bar>unit_samples h ! r - y\<bar>"
    for r c
  proof -
    have "r * nat w + c < length (distances w h x y)"
    proof -
      have "r * nat w + c < r * nat w + nat w" using c by simp
      also have "\<dots> = Suc r * nat w" by simp
      also have "\<dots> \<le> nat h * nat w" using r by (intro mult_le_mono1) simp
      finally show ?thesis by (simp add: length_distances)
    qed
    then have "distances w h x y ! (r * nat w + c) \<in> set (distances w h x y)"
      by (rule nth_mem)
    moreover have "1 / 2 \<le> distances w h x y ! (r * nat w + c)"
      unfolding nth_distances[OF r c] using away by (rule point_distance_ge_half)
    ultimately show ?thesis by blast
  qed
  have "\<exists>d \<in> set (distances w h x y). 1 / 2 \<le> d"
  proof (rule disjE[OF assms(3)])
    assume w: "1 < w"
    have first: "unit_samples w ! 0 = 0" using w by (simp add: nth_unit_samples)
    have last: "unit_samples w ! (nat w - 1) = 1"
      using w by (simp add: nth_unit_samples of_nat_diff)
    show ?thesis
    proof (cases "1 / 2 \<le> \<bar>x\<bar>")
      case True
      then show ?thesis using far[of 0 0] assms first by simp
    next
      case False
      then have "1 / 2 \<le> \<bar>1 - x\<bar>" by (simp add: abs_if split: if_splits)
      then show ?thesis using far[of 0 "nat w - 1"] assms w last by simp
    qed
  next
    assume h: "1 < h"
    have first: "unit_samples h ! 0 = 0" using h by (simp add: nth_unit_samples)
    have last: "unit_samples h ! (nat h - 1) = 1"
      using h by (simp add: nth_unit_samples of_nat_diff)
    show ?thesis
    proof (cases "1 / 2 \<le> \<bar>y\<bar>")
      case True
      then show ?thesis using far[of 0 0] assms first by simp
    next
      case False
      then have "1 / 2 \<le> \<bar>1 - y\<bar>" by (simp add: abs_if split: if_splits)
      then show ?thesis using far[of "nat h - 1" 0] assms h last by simp
    qed
  qed
  then obtain d where "d \<in> set (distances w h x y)" "1 / 2 \<le> d" by blast
  then have "d \<in> set (distances w h x y)" "0 < d" by simp_all
  then show ?thesis by blast
qed

lemma fold_float64_maximum_Fin:
  "fold float64_maximum (map Fin vs) (Fin v) = Fin (fold max vs v)"
  by (induction vs arbitrary: v) (simp_all add: float64_maximum_def max_def)

lemma np_max_Fin:
  assumes "ds \<noteq> []"
  shows "np_max (NDArray s (map Fin ds)) = Ok (Fin (Max (set ds)))"
proof -
  from assms obtain v vs where ds: "ds = v # vs" by (cases ds) auto
  have "fold max vs v = Max (set (v # vs))" by (simp only: Max.set_eq_fold)
  then show ?thesis
    by (simp add: np_max_def ds fold_float64_maximum_Fin del: set_simps)
qed

text \<open>Dividing a list of distances by its positive maximum.\<close>

lemma np_divide_scalar_Fin:
  assumes "0 < m" and "\<forall>d \<in> set ds. 0 \<le> d \<and> d \<le> m"
  shows "np_divide_scalar (NDArray s (map Fin ds)) (Fin m)
           = NDArray s (map Fin (map (\<lambda>d. float64_nearest (d / m)) ds))"
proof -
  have "float64_divide (Fin d) (Fin m) = Fin (float64_nearest (d / m))" if "d \<in> set ds" for d
  proof -
    from that assms have "0 \<le> d / m" "d / m \<le> 1" by simp_all
    then show ?thesis using assms(1) by (simp add: float64_round_unit_interval)
  qed
  then show ?thesis by (simp add: np_divide_scalar_def np_map_def)
qed

lemma normalised_bounds:
  fixes ds :: "real list"
  assumes ne: "ds \<noteq> []" and nonneg: "\<forall>d \<in> set ds. 0 \<le> d" and pos: "\<exists>d \<in> set ds. 0 < d"
  defines "m \<equiv> Max (set ds)"
  shows "0 < m"
    and "\<forall>d \<in> set ds. 0 \<le> d \<and> d \<le> m"
    and "Max (set (map (\<lambda>d. float64_nearest (d / m)) ds)) = 1"
    and "0 \<le> Min (set (map (\<lambda>d. float64_nearest (d / m)) ds))"
proof -
  have fin: "finite (set ds)" and ne': "set ds \<noteq> {}" using ne by simp_all
  from pos obtain d where "d \<in> set ds" "0 < d" by blast
  then have "d \<le> m" unfolding m_def by simp
  with \<open>0 < d\<close> show m: "0 < m" by simp
  show le: "\<forall>d \<in> set ds. 0 \<le> d \<and> d \<le> m" using nonneg unfolding m_def by simp
  have mem: "m \<in> set ds" unfolding m_def using fin ne' by (rule Max_in)
  have unit: "0 \<le> float64_nearest (d / m) \<and> float64_nearest (d / m) \<le> 1"
    if "d \<in> set ds" for d
  proof -
    from that le m have "0 \<le> d / m" "d / m \<le> 1" by simp_all
    then show ?thesis by (simp add: float64_nearest_unit_interval)
  qed
  show "Max (set (map (\<lambda>d. float64_nearest (d / m)) ds)) = 1"
  proof (rule Max_eqI)
    show "finite (set (map (\<lambda>d. float64_nearest (d / m)) ds))" by simp
    have "float64_nearest (m / m) = 1" using m by simp
    then show "1 \<in> set (map (\<lambda>d. float64_nearest (d / m)) ds)"
      using mem by (auto simp: image_iff intro!: bexI[of _ m])
    fix v assume "v \<in> set (map (\<lambda>d. float64_nearest (d / m)) ds)"
    then show "v \<le> 1" using unit by auto
  qed
  show "0 \<le> Min (set (map (\<lambda>d. float64_nearest (d / m)) ds))"
    using ne unit by (subst Min_ge_iff) auto
qed

lemma distance_field_grid_shape:
  assumes "0 < w" and "0 < h"
  shows "\<exists>ds. distance_field (grid_X w h) (grid_Y w h) (PFloat x) (PFloat y)
                = Ok (NDArray [nat h, nat w] ds) \<and> ds \<noteq> []"
proof -
  let ?ds = "map float64_sqrt
          (map2 float64_add
             (map float64_square (map (\<lambda>v. float64_round (v - x)) (flat (grid_X w h))))
             (map float64_square (map (\<lambda>v. float64_round (v - y)) (flat (grid_Y w h)))))"
  have sh: "shape (grid_X w h) = [nat h, nat w]" "shape (grid_Y w h) = [nat h, nat w]"
    by (simp_all add: grid_X_def grid_Y_def)
  have "length ?ds = nat h * nat w" by (simp add: length_grid_X length_grid_Y)
  then have "?ds \<noteq> []" using assms by auto
  moreover have "distance_field (grid_X w h) (grid_Y w h) (PFloat x) (PFloat y)
                   = Ok (NDArray [nat h, nat w] ?ds)"
    by (simp add: distance_field_def np_subtract_scalar_def np_map_def np_square_def
        np_add_def np_sqrt_def sh)
  ultimately show ?thesis by blast
qed

lemma np_max_is_Ok: "ds \<noteq> [] \<Longrightarrow> \<exists>m. np_max (NDArray s ds) = Ok m"
  by (cases ds) (simp_all add: np_max_def)

section \<open>Lemmas on process termination\<close>

lemma is_Exited_and_then:
  "is_Exited (and_then r f) = (is_Exited r \<or> (\<exists>v. r = Ok v \<and> is_Exited (f v)))"
  by (cases r) simp_all

lemma is_Exited_reraise [simp]: "is_Exited (reraise_runtime_error p r) = is_Exited r"
  by (cases r) simp_all

lemma not_Exited_validate_width_and_height [simp]:
  "\<not> is_Exited (validate_width_and_height w h)"
  by (simp add: validate_width_and_height_def split: option.splits)

lemma not_Exited_validate_center_coordinates [simp]:
  "\<not> is_Exited (validate_center_coordinates x y)"
  by (simp add: validate_center_coordinates_def split: option.splits)

lemma not_Exited_validate_gradient_array [simp]: "\<not> is_Exited (validate_gradient_array g)"
  by (cases g) simp_all

lemma not_Exited_validate_direction [simp]: "\<not> is_Exited (validate_direction d)"
  by (cases d) simp_all

lemma not_Exited_operator_index [simp]: "\<not> is_Exited (operator_index v)"
  by (cases v) simp_all

lemma not_Exited_np_linspace [simp]: "\<not> is_Exited (np_linspace s t n)"
  by (simp add: np_linspace_def Let_def is_Exited_and_then)

lemma not_Exited_float_of_scalar [simp]: "\<not> is_Exited (float_of_scalar s)"
  by (cases s) (simp_all split: float64.splits)

lemma not_Exited_np_subtract_scalar [simp]: "\<not> is_Exited (np_subtract_scalar a s)"
  by (simp add: np_subtract_scalar_def is_Exited_and_then)

lemma not_Exited_np_add [simp]: "\<not> is_Exited (np_add a b)"
  by (simp add: np_add_def)

lemma not_Exited_np_max [simp]: "\<not> is_Exited (np_max a)"
  by (simp add: np_max_def split: list.splits)

lemma not_Exited_np_stack [simp]: "\<not> is_Exited (np_stack as k)"
  by (simp add: np_stack_def Let_def split: list.splits)

lemma not_Exited_distance_field [simp]: "\<not> is_Exited (distance_field X Y cx cy)"
  by (simp add: distance_field_def is_Exited_and_then)

lemma not_Exited_create_coordinate_grids [simp]: "\<not> is_Exited (create_coordinate_grids w h)"
  by (simp add: create_coordinate_grids_def is_Exited_and_then)

lemma TypeError_reraise [simp]: "reraise_runtime_error p r \<noteq> Raised (TypeError m)"
  by (cases r) simp_all

lemma exits_print_and_exit:
  "\<not> is_Exited r \<Longrightarrow> returns_raises_TypeError_or_exits (print_and_exit r)"
  by (cases r) (simp_all add: returns_raises_TypeError_or_exits_def)

lemma exits_print_and_exit_inner:
  "returns_raises_TypeError_or_exits r \<Longrightarrow> returns_raises_TypeError_or_exits (print_and_exit r)"
  by (cases r) (simp_all add: returns_raises_TypeError_or_exits_def)

lemma exits_and_then:
  assumes "returns_raises_TypeError_or_exits r"
    and "\<And>v. r = Ok v \<Longrightarrow> \<not> is_Exited (f v)"
  shows "returns_raises_TypeError_or_exits (print_and_exit (and_then r f))"
proof (cases r)
  case (Ok v)
  then show ?thesis using assms(2)[of v] by (simp add: exits_print_and_exit)
next
  case (Raised e)
  then show ?thesis by (simp add: returns_raises_TypeError_or_exits_def)
next
  case (Exited out code)
  then show ?thesis using assms(1) by (simp add: returns_raises_TypeError_or_exits_def)
qed

lemma exits_Raised_TypeError [simp]:
  "returns_raises_TypeError_or_exits (Raised (TypeError m))"
  by (simp add: returns_raises_TypeError_or_exits_def)

lemma exits_create_coordinate_grids_on_image:
  "returns_raises_TypeError_or_exits (create_coordinate_grids_on_image width height)"
  by (simp add: create_coordinate_grids_on_image_def exits_print_and_exit is_Exited_and_then)

lemma exits_create_linear_gradients_on_image:
  "returns_raises_TypeError_or_exits (create_linear_gradients_on_image width height)"
  by (auto simp: create_linear_gradients_on_image_def exits_create_coordinate_grids_on_image
      intro!: exits_and_then)

lemma exits_apply_direction_to_gradient_on_image:
  "returns_raises_TypeError_or_exits (apply_direction_to_gradient_on_image gradient direction)"
  by (cases gradient; cases direction)
    (simp_all add: apply_direction_to_gradient_on_image_def returns_raises_TypeError_or_exits_def)

lemma not_Exited_apply_direction_to_gradient_on_image:
  "\<not> is_Exited (apply_direction_to_gradient_on_image (PArray g) (PDirection d))"
  by (simp add: apply_direction_to_gradient_on_image_def)

section \<open>The claims\<close>



text \<open>
  Claim C2. \<^verbatim>\<open>create_radial_gradient\<close> divides the distance field by its maximum only
  when the maximum is above zero, and returns the all-zero field otherwise. On the grid of
  one point with the center on that point, the first module does so; the second module
  divides without the test, and its field is \<open>nan\<close>.
\<close>

theorem radial_gradient_single_point:
  "create_radial_gradient_on_image (PInt 1) (PInt 1) (PFloat 0) (PFloat 0)
     = Ok (NDArray [1, 1] [NaN])
   \<and> create_radial_gradient (PInt 1) (PInt 1) (PFloat 0) (PFloat 0)
     = Ok (NDArray [1, 1] [Fin 0])"
  by (simp add: create_radial_gradient_on_image_def create_coordinate_grids_on_image_def
      create_radial_gradient_def create_coordinate_grids_def validate_width_and_height_def
      validate_center_coordinates_def np_linspace_def
      np_meshgrid_def distance_field_def np_subtract_scalar_def np_map_def np_square_def
      np_add_def np_sqrt_def np_max_def np_divide_scalar_def)

text \<open>
  Claim C3, as amended. On a grid of more than one point, with a center whose coordinates
  are at most \<open>2 ^ 510\<close> in magnitude (inside the unit square or not), the field of
  \<^verbatim>\<open>create_radial_gradient\<close> has maximum exactly one and minimum at least zero, in both
  modules. The first module takes any int or float as a center coordinate, the second a
  float.
\<close>

theorem radial_gradient_max_one:
  assumes "0 < width" and "0 < height" and "1 < width \<or> 1 < height"
    and "float_of_scalar center_x = Ok x" and "float_of_scalar center_y = Ok y"
    and "\<bar>x\<bar> \<le> 2 ^ 510" and "\<bar>y\<bar> \<le> 2 ^ 510"
  shows "\<exists>vs. create_radial_gradient (PInt width) (PInt height) center_x center_y =
                Ok (NDArray [nat height, nat width] (map Fin vs))
            \<and> create_radial_gradient_on_image (PInt width) (PInt height) (PFloat x) (PFloat y) =
                Ok (NDArray [nat height, nat width] (map Fin vs))
            \<and> vs \<noteq> [] \<and> Max (set vs) = 1 \<and> 0 \<le> Min (set vs)"
proof -
  let ?ds = "distances width height x y"
  let ?m = "Max (set ?ds)"
  let ?vs = "map (\<lambda>d. float64_nearest (d / ?m)) ?ds"
  have ne: "?ds \<noteq> []"
    using assms(1,2) by (rule distances_nonempty)
  have nonneg: "\<forall>d \<in> set ?ds. 0 \<le> d" by (simp add: distances_nonneg)
  have pos: "\<exists>d \<in> set ?ds. 0 < d" using assms(1-3) by (rule distances_positive)
  note nb = normalised_bounds[OF ne nonneg pos]
  have mx: "np_max (NDArray [nat height, nat width] (map Fin ?ds)) = Ok (Fin ?m)"
    using ne by (rule np_max_Fin)
  have dv: "np_divide_scalar (NDArray [nat height, nat width] (map Fin ?ds)) (Fin ?m)
              = NDArray [nat height, nat width] (map Fin ?vs)"
    using nb(1,2) by (rule np_divide_scalar_Fin)
  have d1: "distance_field (grid_X width height) (grid_Y width height) center_x center_y
              = Ok (NDArray [nat height, nat width] (map Fin ?ds))"
    using assms(4-7) by (rule distance_field_grid)
  have d2: "distance_field (grid_X width height) (grid_Y width height) (PFloat x) (PFloat y)
              = Ok (NDArray [nat height, nat width] (map Fin ?ds))"
    using assms(6,7) by (intro distance_field_grid) simp_all
  have num: "as_int_or_float center_x \<noteq> None" "as_int_or_float center_y \<noteq> None"
    using assms(4,5) by (auto dest: float_of_scalar_numeric)
  have r1: "create_radial_gradient (PInt width) (PInt height) center_x center_y =
              Ok (NDArray [nat height, nat width] (map Fin ?vs))"
    using assms(1,2) num nb(1)
    by (auto simp add: create_radial_gradient_def validate_width_and_height_def
        validate_center_coordinates_def create_coordinate_grids_PInt d1 mx dv)
  have r2: "create_radial_gradient_on_image (PInt width) (PInt height) (PFloat x) (PFloat y) =
              Ok (NDArray [nat height, nat width] (map Fin ?vs))"
    using assms(1,2)
    by (simp add: create_radial_gradient_on_image_def create_coordinate_grids_on_image_PInt
        d2 mx dv)
  from r1 r2 ne nb(3,4) show ?thesis by (intro exI[of _ ?vs]) simp
qed

text \<open>The grid of two points in one row, the center on the first point.\<close>

theorem radial_gradient_max_one_witness:
  "(0::int) < 2 \<and> (0::int) < 1 \<and> ((1::int) < 2 \<or> (1::int) < 1)
   \<and> float_of_scalar (PInt 0) = Ok 0 \<and> \<bar>0::real\<bar> \<le> 2 ^ 510
   \<and> (\<exists>vs. create_radial_gradient (PInt 2) (PInt 1) (PInt 0) (PInt 0)
             = Ok (NDArray [1, 2] (map Fin vs))
           \<and> create_radial_gradient_on_image (PInt 2) (PInt 1) (PFloat 0) (PFloat 0)
             = Ok (NDArray [1, 2] (map Fin vs))
           \<and> vs \<noteq> [] \<and> Max (set vs) = 1 \<and> 0 \<le> Min (set vs))"
  using radial_gradient_max_one[of 2 1 "PInt 0" 0 "PInt 0" 0] by simp

text \<open>
  The claim as stated fails for a center far from the grid: with the center
  \<open>(2 ^ 600, 0)\<close> the squares overflow, every distance is infinite, and the field
  is \<open>nan\<close> in both modules.
\<close>

theorem radial_gradient_far_center:
  "create_radial_gradient (PInt 2) (PInt 1) (PFloat (2 ^ 600)) (PFloat 0)
     = Ok (NDArray [1, 2] [NaN, NaN])
   \<and> create_radial_gradient_on_image (PInt 2) (PInt 1) (PFloat (2 ^ 600)) (PFloat 0)
     = Ok (NDArray [1, 2] [NaN, NaN])"
proof -
  have a: "float64_square (float64_round (0 - 2 ^ 600)) = PosInf"
    by (rule float64_square_round_overflow) simp
  have b: "float64_square (float64_round (1 - 2 ^ 600)) = PosInf"
    by (rule float64_square_round_overflow) simp
  have g1: "create_coordinate_grids (PInt 2) (PInt 1) = Ok (NDArray [1, 2] [0, 1], NDArray [1, 2] [0, 0])"
    by (simp add: create_coordinate_grids_def validate_width_and_height_def np_linspace_def
        np_meshgrid_def upt_rec numeral_2_eq_2)
  have g2: "create_coordinate_grids_on_image (PInt 2) (PInt 1) = Ok (NDArray [1, 2] [0, 1], NDArray [1, 2] [0, 0])"
    by (simp add: create_coordinate_grids_on_image_def np_linspace_def
        np_meshgrid_def upt_rec numeral_2_eq_2)
  have d: "distance_field (NDArray [1, 2] [0, 1]) (NDArray [1, 2] [0, 0]) (PFloat (2 ^ 600)) (PFloat 0)
             = Ok (NDArray [1, 2] [PosInf, PosInf])"
    using a b
    by (simp add: distance_field_def np_subtract_scalar_def np_map_def np_square_def
        np_add_def np_sqrt_def)
  show ?thesis
    using g1 g2 d
    by (simp add: create_radial_gradient_def create_radial_gradient_on_image_def
        validate_width_and_height_def validate_center_coordinates_def
        np_max_def np_divide_scalar_def np_map_def float64_maximum_def)
qed

text \<open>
  Claim C4. \<^verbatim>\<open>create_rgb_combination\<close> stacks three fields of one shape into an array of
  shape \<open>(height, width, 3)\<close> whose elements are clamped to \<open>[0, 1]\<close>. On the one-point
  fields \<open>2\<close>, \<open>1/2\<close> and \<open>-1\<close> the first module returns \<open>1, 1/2, 0\<close>; the second module
  stacks without clamping and returns \<open>2, 1/2, -1\<close>.
\<close>

theorem rgb_combination_out_of_range:
  "create_rgb_combination_on_image (PArray (NDArray [1, 1] [2])) (PArray (NDArray [1, 1] [1 / 2]))
       (PArray (NDArray [1, 1] [- 1])) = Ok (NDArray [1, 1, 3] [2, 1 / 2, - 1])
   \<and> create_rgb_combination (PArray (NDArray [1, 1] [2])) (PArray (NDArray [1, 1] [1 / 2]))
       (PArray (NDArray [1, 1] [- 1])) = Ok (NDArray [1, 1, 3] [1, 1 / 2, 0])"
  by (simp add: create_rgb_combination_on_image_def create_rgb_combination_def np_stack_def
      np_clip_def np_map_def)

text \<open>
  Claim C5. \<^verbatim>\<open>create_rgb_combination\<close> fails exactly when its three arrays do not have
  one shape, and returns otherwise. The failure of the first module is the
  \<^verbatim>\<open>RuntimeError\<close> that wraps numpy's shape error; the second module, for fields of two
  dimensions, prints that error and exits.
\<close>

theorem rgb_combination_fails_iff_shape_mismatch:
  "(is_Ok (create_rgb_combination (PArray a) (PArray b) (PArray c))
      = (shape b = shape a \<and> shape c = shape a))
   \<and> (create_rgb_combination (PArray a) (PArray b) (PArray c)
        = Raised (RuntimeError
            ''Error combining RGB channels: all input arrays must have the same shape''))
      = (\<not> (shape b = shape a \<and> shape c = shape a))
   \<and> (length (shape a) = 2 \<longrightarrow>
        (is_Ok (create_rgb_combination_on_image (PArray a) (PArray b) (PArray c))
           = (shape b = shape a \<and> shape c = shape a))
        \<and> (create_rgb_combination_on_image (PArray a) (PArray b) (PArray c)
             = Exited ''Exception: all input arrays must have the same shape'' 1)
           = (\<not> (shape b = shape a \<and> shape c = shape a)))"
  by (auto simp: create_rgb_combination_def create_rgb_combination_on_image_def np_stack_def
      Let_def)

text \<open>Fields of shapes \<open>(4, 4)\<close> and \<open>(5, 5)\<close> fail; three fields of shape \<open>(4, 4)\<close> do not.\<close>

theorem rgb_combination_fails_iff_shape_mismatch_witness:
  "length (shape (NDArray [4, 4] (replicate 16 (0::real)))) = 2
   \<and> create_rgb_combination (PArray (NDArray [4, 4] (replicate 16 0)))
        (PArray (NDArray [5, 5] (replicate 25 0))) (PArray (NDArray [4, 4] (replicate 16 0)))
       = Raised (RuntimeError
           ''Error combining RGB channels: all input arrays must have the same shape'')
   \<and> create_rgb_combination_on_image (PArray (NDArray [4, 4] (replicate 16 0)))
        (PArray (NDArray [5, 5] (replicate 25 0))) (PArray (NDArray [4, 4] (replicate 16 0)))
       = Exited ''Exception: all input arrays must have the same shape'' 1
   \<and> is_Ok (create_rgb_combination (PArray (NDArray [4, 4] (replicate 16 0)))
        (PArray (NDArray [4, 4] (replicate 16 1))) (PArray (NDArray [4, 4] (replicate 16 0))))
   \<and> is_Ok (create_rgb_combination_on_image (PArray (NDArray [4, 4] (replicate 16 0)))
        (PArray (NDArray [4, 4] (replicate 16 1))) (PArray (NDArray [4, 4] (replicate 16 0))))"
  using rgb_combination_fails_iff_shape_mismatch[of "NDArray [4, 4] (replicate 16 0)"
      "NDArray [5, 5] (replicate 25 0)" "NDArray [4, 4] (replicate 16 0)"]
    rgb_combination_fails_iff_shape_mismatch[of "NDArray [4, 4] (replicate 16 0)"
      "NDArray [4, 4] (replicate 16 1)" "NDArray [4, 4] (replicate 16 0)"]
  by simp

text \<open>
  Claim C6. Every entry point that builds a grid or a field fails when the width or the
  height is not positive. For width zero and height ten the first module raises
  \<^verbatim>\<open>ValueError\<close>; \<^verbatim>\<open>create_linear_gradients\<close> of the second module returns two empty
  arrays of shape \<open>(10, 0)\<close>.
\<close>

theorem linear_gradients_zero_width:
  "create_linear_gradients_on_image (PInt 0) (PInt 10)
     = Ok (NDArray [10, 0] [], NDArray [10, 0] [])
   \<and> create_linear_gradients (PInt 0) (PInt 10)
     = Raised (ValueError ''Width and height must be positive'')"
  by (simp add: create_linear_gradients_on_image_def create_coordinate_grids_on_image_def
      create_linear_gradients_def validate_width_and_height_def np_linspace_def
      np_meshgrid_def)

text \<open>
  Claim C7, as amended. No operation of \<^verbatim>\<open>create_gradient_image.py\<close> ends the process or
  prints: each of its failures is an exception raised to the caller. Every operation of
  \<^verbatim>\<open>create_gradient_on_image.py\<close> returns, raises the \<^verbatim>\<open>TypeError\<close> of a failed
  \<^verbatim>\<open>isinstance\<close> check, or prints a line that starts with \<^verbatim>\<open>Exception: \<close> and exits
  with status one.
\<close>

theorem core_operations_process_exit:
  "\<not> is_Exited (create_coordinate_grids width height)
   \<and> \<not> is_Exited (create_black_to_white_gradient width height)
   \<and> \<not> is_Exited (create_linear_gradients width height)
   \<and> \<not> is_Exited (create_radial_gradient width height center_x center_y)
   \<and> \<not> is_Exited (apply_direction_to_gradient gradient direction)
   \<and> \<not> is_Exited (create_rgb_combination red green blue)
   \<and> returns_raises_TypeError_or_exits (create_coordinate_grids_on_image width height)
   \<and> returns_raises_TypeError_or_exits (create_black_to_white_gradient_on_image width height)
   \<and> returns_raises_TypeError_or_exits (create_linear_gradients_on_image width height)
   \<and> returns_raises_TypeError_or_exits
        (create_radial_gradient_on_image width height center_x center_y)
   \<and> returns_raises_TypeError_or_exits (apply_direction_to_gradient_on_image gradient direction)
   \<and> returns_raises_TypeError_or_exits
        (create_directional_gradients_on_image direction_x direction_y width height)
   \<and> returns_raises_TypeError_or_exits (create_rgb_combination_on_image red green blue)"
proof (intro conjI)
  show "\<not> is_Exited (create_coordinate_grids width height)" by simp
  show "\<not> is_Exited (create_black_to_white_gradient width height)"
    by (simp add: create_black_to_white_gradient_def is_Exited_and_then split: prod.splits)
  show "\<not> is_Exited (create_linear_gradients width height)"
    by (simp add: create_linear_gradients_def is_Exited_and_then split: prod.splits)
  show "\<not> is_Exited (create_radial_gradient width height center_x center_y)"
    by (simp add: create_radial_gradient_def is_Exited_and_then split: prod.splits)
  show "\<not> is_Exited (apply_direction_to_gradient gradient direction)"
    by (simp add: apply_direction_to_gradient_def is_Exited_and_then)
  show "\<not> is_Exited (create_rgb_combination red green blue)"
    by (simp add: create_rgb_combination_def is_Exited_and_then)
  show "returns_raises_TypeError_or_exits (create_coordinate_grids_on_image width height)"
    by (rule exits_create_coordinate_grids_on_image)
  show "returns_raises_TypeError_or_exits (create_black_to_white_gradient_on_image width height)"
    by (auto simp: create_black_to_white_gradient_on_image_def
        exits_create_coordinate_grids_on_image intro!: exits_and_then)
  show "returns_raises_TypeError_or_exits (create_linear_gradients_on_image width height)"
    by (rule exits_create_linear_gradients_on_image)
  show "returns_raises_TypeError_or_exits
          (create_radial_gradient_on_image width height center_x center_y)"
    by (auto simp: create_radial_gradient_on_image_def is_Exited_and_then
        exits_create_coordinate_grids_on_image intro!: exits_and_then)
  show "returns_raises_TypeError_or_exits (apply_direction_to_gradient_on_image gradient direction)"
    by (rule exits_apply_direction_to_gradient_on_image)
  show "returns_raises_TypeError_or_exits
          (create_directional_gradients_on_image direction_x direction_y width height)"
  proof -
    have "\<not> is_Exited
            (and_then (apply_direction_to_gradient_on_image (PArray a) direction_x) (\<lambda>a'.
             and_then (apply_direction_to_gradient_on_image (PArray b) direction_y) (\<lambda>b'.
             Ok (a', b'))))"
      if "is_PDirection direction_x" "is_PDirection direction_y" for a b
      using that
      by (cases direction_x; cases direction_y)
        (simp_all add: is_Exited_and_then not_Exited_apply_direction_to_gradient_on_image)
    then show ?thesis
      by (auto simp: create_directional_gradients_on_image_def
          exits_create_linear_gradients_on_image intro!: exits_and_then)
  qed
  show "returns_raises_TypeError_or_exits (create_rgb_combination_on_image red green blue)"
    by (cases red; cases green; cases blue)
      (simp_all add: create_rgb_combination_on_image_def exits_print_and_exit)
qed

text \<open>
  The claim as stated fails: with width \<open>-1\<close> the second module prints numpy's error and
  exits.
\<close>

theorem coordinate_grids_on_image_exits:
  "create_coordinate_grids_on_image (PInt (- 1)) (PInt 10) =
     Exited ''Exception: Number of samples, -1, must be non-negative.'' 1"
  by (simp add: create_coordinate_grids_on_image_def np_linspace_def show_int_def)

text \<open>
  Claim C8, as amended. \<^verbatim>\<open>apply_direction_to_gradient\<close> with \<^verbatim>\<open>Direction.FORWARD\<close>
  returns its array, in both modules. \<^verbatim>\<open>Direction.REVERSE\<close> rounds \<open>1 - v\<close> to float64,
  so applying it twice gives back a field of values in \<open>[0, 1]\<close> only up to rounding:
  each value of the result is within \<open>2 ^ -53\<close> of the value it came from.
\<close>

theorem apply_direction_forward_and_reverse_twice:
  "apply_direction_to_gradient (PArray f) (PDirection FORWARD) = Ok f
   \<and> apply_direction_to_gradient_on_image (PArray f) (PDirection FORWARD) = Ok f
   \<and> (list_all (\<lambda>v. 0 \<le> v \<and> v \<le> 1) (flat f) \<longrightarrow>
        (\<exists>g. and_then (apply_direction_to_gradient (PArray f) (PDirection REVERSE))
                (\<lambda>g. apply_direction_to_gradient (PArray g) (PDirection REVERSE)) = Ok g
            \<and> and_then (apply_direction_to_gradient_on_image (PArray f) (PDirection REVERSE))
                (\<lambda>g. apply_direction_to_gradient_on_image (PArray g) (PDirection REVERSE)) = Ok g
            \<and> shape g = shape f
            \<and> list_all2 (\<lambda>a b. \<bar>a - b\<bar> \<le> 1 / 2 ^ 53) (flat g) (flat f)))"
proof (intro conjI impI)
  show "apply_direction_to_gradient (PArray f) (PDirection FORWARD) = Ok f"
    by (simp add: apply_direction_to_gradient_def)
  show "apply_direction_to_gradient_on_image (PArray f) (PDirection FORWARD) = Ok f"
    by (simp add: apply_direction_to_gradient_on_image_def)
  assume "list_all (\<lambda>v. 0 \<le> v \<and> v \<le> 1) (flat f)"
  then have unit: "\<forall>v \<in> set (flat f). 0 \<le> v \<and> v \<le> 1" by (simp add: list_all_iff)
  let ?g = "np_one_minus (np_one_minus f)"
  have "\<forall>v \<in> set (flat f).
          \<bar>float64_nearest (1 - float64_nearest (1 - v)) - v\<bar> \<le> 1 / 2 ^ 53"
    using unit one_minus_twice_error by blast
  then have "list_all2 (\<lambda>a b. \<bar>a - b\<bar> \<le> 1 / 2 ^ 53)
          (map (\<lambda>v. float64_nearest (1 - float64_nearest (1 - v))) (flat f)) (flat f)"
    by (simp only: list_all2_map1 list_all2_same)
  then have close: "list_all2 (\<lambda>a b. \<bar>a - b\<bar> \<le> 1 / 2 ^ 53) (flat ?g) (flat f)"
    by (simp add: np_one_minus_def np_map_def comp_def)
  show "\<exists>g. and_then (apply_direction_to_gradient (PArray f) (PDirection REVERSE))
                (\<lambda>g. apply_direction_to_gradient (PArray g) (PDirection REVERSE)) = Ok g
            \<and> and_then (apply_direction_to_gradient_on_image (PArray f) (PDirection REVERSE))
                (\<lambda>g. apply_direction_to_gradient_on_image (PArray g) (PDirection REVERSE)) = Ok g
            \<and> shape g = shape f
            \<and> list_all2 (\<lambda>a b. \<bar>a - b\<bar> \<le> 1 / 2 ^ 53) (flat g) (flat f)"
    using close
    by (intro exI[of _ ?g])
      (simp add: apply_direction_to_gradient_def apply_direction_to_gradient_on_image_def
        np_one_minus_def np_map_def)
qed

text \<open>The field \<open>0, 1/2\<close>.\<close>

theorem apply_direction_forward_and_reverse_twice_witness:
  "list_all (\<lambda>v. 0 \<le> v \<and> v \<le> (1::real)) (flat (NDArray [1, 2] [0, 1 / 2]))
   \<and> (\<exists>g. and_then (apply_direction_to_gradient (PArray (NDArray [1, 2] [0, 1 / 2])) (PDirection REVERSE))
                (\<lambda>g. apply_direction_to_gradient (PArray g) (PDirection REVERSE)) = Ok g
          \<and> shape g = [1, 2]
          \<and> list_all2 (\<lambda>a b. \<bar>a - b\<bar> \<le> 1 / 2 ^ 53) (flat g) [0, 1 / 2])"
  using apply_direction_forward_and_reverse_twice[of "NDArray [1, 2] [0, 1 / 2]"] by auto

text \<open>
  The claim as stated fails: \<open>1 - 2 ^ -60\<close> rounds to one, so the value \<open>2 ^ -60\<close>
  comes back as zero.
\<close>

theorem apply_direction_reverse_twice_small_value:
  "and_then (apply_direction_to_gradient (PArray (NDArray [1, 1] [1 / 2 ^ 60])) (PDirection REVERSE))
      (\<lambda>g. apply_direction_to_gradient (PArray g) (PDirection REVERSE)) = Ok (NDArray [1, 1] [0])
   \<and> and_then (apply_direction_to_gradient_on_image (PArray (NDArray [1, 1] [1 / 2 ^ 60]))
        (PDirection REVERSE))
      (\<lambda>g. apply_direction_to_gradient_on_image (PArray g) (PDirection REVERSE))
       = Ok (NDArray [1, 1] [0])"
  using float64_nearest_below_one
  by (simp add: apply_direction_to_gradient_def apply_direction_to_gradient_on_image_def
      np_one_minus_def np_map_def)

text \<open>
  The float64 nearest to \<open>0.1\<close>, which is \<open>3602879701896397 / 2 ^ 55\<close>, comes back from
  two reversals as \<open>900719925474099 / 2 ^ 53\<close>, printed \<^verbatim>\<open>0.09999999999999998\<close>.
\<close>

lemma reverse_twice_one_tenth:
  "np_one_minus (np_one_minus (NDArray [1, 1] [3602879701896397 / 2 ^ 55]))
     = NDArray [1, 1] [900719925474099 / 2 ^ 53]"
proof -
  have e1: "float64_exponent (1 - 3602879701896397 / 2 ^ 55) = - 1"
    by (rule float64_exponent_eqI) simp_all
  have e2: "float64_exponent (1 - 8106479329266893 / 2 ^ 53) = - 4"
    by (rule float64_exponent_eqI) simp_all
  have a: "float64_nearest (1 - 3602879701896397 / 2 ^ 55) = 8106479329266893 / 2 ^ 53"
    using e1 by (simp add: float64_nearest_def round_half_even_def)
  have b: "float64_nearest (1 - 8106479329266893 / 2 ^ 53) = 900719925474099 / 2 ^ 53"
    using e2 by (simp add: float64_nearest_def round_half_even_def)
  have twice: "np_one_minus (np_one_minus (NDArray s [v]))
                 = NDArray s [float64_nearest (1 - float64_nearest (1 - v))]" for s v
    by (simp add: np_one_minus_def np_map_def)
  show ?thesis by (simp only: twice a b)
qed

text \<open>
  Claim C9, as amended. With a positive integer width and height,
  \<^verbatim>\<open>create_radial_gradient\<close> of the first module raises \<^verbatim>\<open>TypeError\<close> exactly when a center
  coordinate is neither an int nor a float, and for an int or float center of magnitude
  at most \<open>2 ^ 510\<close> it returns a field of shape \<open>(height, width)\<close> of finite values in
  \<open>[0, 1]\<close>. That of the second module raises \<^verbatim>\<open>TypeError\<close> exactly when a center
  coordinate is not a float, so that an integer center is refused, and for float centers
  it returns an array of shape \<open>(height, width)\<close>.
\<close>

theorem radial_gradient_center_validation:
  assumes "0 < width" and "0 < height"
  shows "((\<exists>m. create_radial_gradient (PInt width) (PInt height) center_x center_y
               = Raised (TypeError m))
           = (as_int_or_float center_x = None \<or> as_int_or_float center_y = None))
       \<and> ((\<exists>m. create_radial_gradient_on_image (PInt width) (PInt height) center_x center_y
               = Raised (TypeError m))
           = (as_float center_x = None \<or> as_float center_y = None))
       \<and> (\<forall>x y. float_of_scalar center_x = Ok x \<and> float_of_scalar center_y = Ok y
                 \<and> \<bar>x\<bar> \<le> 2 ^ 510 \<and> \<bar>y\<bar> \<le> 2 ^ 510 \<longrightarrow>
             (\<exists>vs. create_radial_gradient (PInt width) (PInt height) center_x center_y
                     = Ok (NDArray [nat height, nat width] (map Fin vs))
                  \<and> list_all (\<lambda>v. 0 \<le> v \<and> v \<le> 1) vs))
       \<and> (as_float center_x \<noteq> None \<and> as_float center_y \<noteq> None \<longrightarrow>
             (\<exists>a. create_radial_gradient_on_image (PInt width) (PInt height) center_x center_y
                     = Ok a
                 \<and> shape a = [nat height, nat width]))"
proof (intro conjI allI impI)
  let ?R1 = "create_radial_gradient (PInt width) (PInt height) center_x center_y"
  let ?R2 = "create_radial_gradient_on_image (PInt width) (PInt height) center_x center_y"
  show "(\<exists>m. ?R1 = Raised (TypeError m))
          = (as_int_or_float center_x = None \<or> as_int_or_float center_y = None)"
    using assms
    by (cases "as_int_or_float center_x"; cases "as_int_or_float center_y")
      (simp_all add: create_radial_gradient_def validate_width_and_height_def
        validate_center_coordinates_def)
  show ok2: "\<exists>a. ?R2 = Ok a \<and> shape a = [nat height, nat width]"
    if "as_float center_x \<noteq> None \<and> as_float center_y \<noteq> None"
  proof -
    from that obtain x y where c: "center_x = PFloat x" "center_y = PFloat y"
      by (cases center_x; cases center_y) simp_all
    from distance_field_grid_shape[OF assms, of x y] obtain ds where
      d: "distance_field (grid_X width height) (grid_Y width height) (PFloat x) (PFloat y)
            = Ok (NDArray [nat height, nat width] ds)" and ne: "ds \<noteq> []"
      by blast
    from np_max_is_Ok[OF ne] obtain m where
      m: "np_max (NDArray [nat height, nat width] ds) = Ok m" by blast
    show ?thesis
      using assms
      by (simp add: c create_radial_gradient_on_image_def create_coordinate_grids_on_image_PInt
          d m np_divide_scalar_def np_map_def)
  qed
  show "(\<exists>m. ?R2 = Raised (TypeError m))
          = (as_float center_x = None \<or> as_float center_y = None)"
  proof (cases "as_float center_x = None \<or> as_float center_y = None")
    case True
    then show ?thesis by (auto simp: create_radial_gradient_on_image_def)
  next
    case False
    then obtain a where "?R2 = Ok a" using ok2 by blast
    then show ?thesis using False by simp
  qed
next
  fix x y
  assume c: "float_of_scalar center_x = Ok x \<and> float_of_scalar center_y = Ok y
                 \<and> \<bar>x\<bar> \<le> 2 ^ 510 \<and> \<bar>y\<bar> \<le> 2 ^ 510"
  let ?ds = "distances width height x y"
  let ?m = "Max (set ?ds)"
  have ne: "?ds \<noteq> []" using assms by (rule distances_nonempty)
  have nonneg: "\<forall>d \<in> set ?ds. 0 \<le> d" by (simp add: distances_nonneg)
  have mx: "np_max (NDArray [nat height, nat width] (map Fin ?ds)) = Ok (Fin ?m)"
    using ne by (rule np_max_Fin)
  have d1: "distance_field (grid_X width height) (grid_Y width height) center_x center_y
              = Ok (NDArray [nat height, nat width] (map Fin ?ds))"
    using c by (intro distance_field_grid) simp_all
  have num: "as_int_or_float center_x \<noteq> None" "as_int_or_float center_y \<noteq> None"
    using c by (auto dest: float_of_scalar_numeric)
  have R: "create_radial_gradient (PInt width) (PInt height) center_x center_y
             = (if 0 < ?m
                then Ok (np_divide_scalar (NDArray [nat height, nat width] (map Fin ?ds)) (Fin ?m))
                else Ok (NDArray [nat height, nat width] (map Fin ?ds)))"
    using assms num
    by (auto simp add: create_radial_gradient_def validate_width_and_height_def
        validate_center_coordinates_def create_coordinate_grids_PInt d1 mx)
  show "\<exists>vs. create_radial_gradient (PInt width) (PInt height) center_x center_y
                = Ok (NDArray [nat height, nat width] (map Fin vs))
            \<and> list_all (\<lambda>v. 0 \<le> v \<and> v \<le> 1) vs"
  proof (cases "0 < ?m")
    case True
    have le: "\<forall>d \<in> set ?ds. 0 \<le> d \<and> d \<le> ?m" using nonneg by simp
    have dv: "np_divide_scalar (NDArray [nat height, nat width] (map Fin ?ds)) (Fin ?m)
                = NDArray [nat height, nat width]
                    (map Fin (map (\<lambda>d. float64_nearest (d / ?m)) ?ds))"
      using True le by (rule np_divide_scalar_Fin)
    have "0 \<le> float64_nearest (d / ?m) \<and> float64_nearest (d / ?m) \<le> 1"
      if "d \<in> set ?ds" for d
    proof -
      from that le True have "0 \<le> d / ?m" "d / ?m \<le> 1" by simp_all
      then show ?thesis by (simp add: float64_nearest_unit_interval)
    qed
    then show ?thesis
      using True
      by (intro exI[of _ "map (\<lambda>d. float64_nearest (d / ?m)) ?ds"])
        (simp add: R dv list_all_iff)
  next
    case False
    have zero: "d = 0" if "d \<in> set ?ds" for d
    proof -
      from that have "d \<le> ?m" by simp
      moreover from nonneg that have "0 \<le> d" by blast
      ultimately show ?thesis using False by linarith
    qed
    have "\<forall>v \<in> set ?ds. 0 \<le> v \<and> v \<le> 1"
    proof (intro ballI)
      fix v assume "v \<in> set ?ds"
      with zero have "v = 0" by blast
      then show "0 \<le> v \<and> v \<le> 1" by simp
    qed
    then show ?thesis
      using False by (intro exI[of _ ?ds]) (simp add: R list_all_iff)
  qed
qed

text \<open>
  On the grid of two by two points: an integer center, a float center and a string as a
  center coordinate.
\<close>

theorem radial_gradient_center_validation_witness:
  "(0::int) < 2 \<and> (0::int) < 2
   \<and> float_of_scalar (PInt 0) = Ok 0 \<and> \<bar>0::real\<bar> \<le> 2 ^ 510
   \<and> as_float (PFloat 0) \<noteq> None
   \<and> (\<exists>vs. create_radial_gradient (PInt 2) (PInt 2) (PInt 0) (PInt 0)
             = Ok (NDArray [2, 2] (map Fin vs)) \<and> list_all (\<lambda>v. 0 \<le> v \<and> v \<le> 1) vs)
   \<and> (\<exists>m. create_radial_gradient_on_image (PInt 2) (PInt 2) (PInt 0) (PInt 0)
             = Raised (TypeError m))
   \<and> (\<exists>a. create_radial_gradient_on_image (PInt 2) (PInt 2) (PFloat 0) (PFloat 0) = Ok a
          \<and> shape a = [2, 2])
   \<and> (\<exists>m. create_radial_gradient (PInt 2) (PInt 2) (PStr ''a'') (PFloat 0)
             = Raised (TypeError m))"
proof -
  note a = radial_gradient_center_validation[of 2 2 "PInt 0" "PInt 0"]
  note b = radial_gradient_center_validation[of 2 2 "PFloat 0" "PFloat 0"]
  note c = radial_gradient_center_validation[of 2 2 "PStr ''a''" "PFloat 0"]
  have 1: "\<exists>vs. create_radial_gradient (PInt 2) (PInt 2) (PInt 0) (PInt 0)
             = Ok (NDArray [2, 2] (map Fin vs)) \<and> list_all (\<lambda>v. 0 \<le> v \<and> v \<le> 1) vs"
    using a by simp
  have 2: "\<exists>m. create_radial_gradient_on_image (PInt 2) (PInt 2) (PInt 0) (PInt 0)
             = Raised (TypeError m)"
    using a by simp
  have 3: "\<exists>a. create_radial_gradient_on_image (PInt 2) (PInt 2) (PFloat 0) (PFloat 0) = Ok a
          \<and> shape a = [2, 2]"
    using b by simp
  have 4: "\<exists>m. create_radial_gradient (PInt 2) (PInt 2) (PStr ''a'') (PFloat 0)
             = Raised (TypeError m)"
    using c by simp
  from 1 2 3 4 show ?thesis by simp
qed

text \<open>
  The claim as stated fails: the second module refuses the integer center \<open>(0, 0)\<close>.
\<close>

theorem radial_gradient_on_image_refuses_integer_center:
  "create_radial_gradient_on_image (PInt 2) (PInt 2) (PInt 0) (PInt 0) =
     Raised (TypeError ''Expected 'center_x' to be an float'')"
  by (simp add: create_radial_gradient_on_image_def)

text \<open>
  In the first module an integer center beyond the range of float64 is no
  \<^verbatim>\<open>TypeError\<close>: the conversion fails inside the \<^verbatim>\<open>try\<close> block.
\<close>

lemma radial_gradient_huge_integer_center:
  "create_radial_gradient (PInt 2) (PInt 1) (PInt (10 ^ 400)) (PInt 0) =
     Raised (RuntimeError ''Error creating radial gradient: int too large to convert to float'')"
proof -
  have "(2::real) ^ 1024 \<le> 10 ^ 400" by simp
  then have "float64_round (10 ^ 400) = PosInf" by (rule float64_round_overflow)
  then have "float_of_scalar (PInt (10 ^ 400)) = Raised (OverflowError ''int too large to convert to float'')"
    by simp
  then show ?thesis
    by (simp add: create_radial_gradient_def validate_width_and_height_def
        validate_center_coordinates_def create_coordinate_grids_def np_linspace_def
        np_meshgrid_def distance_field_def np_subtract_scalar_def)
qed

text \<open>
  Claim C10. A positive width that is no integer passes the validation of
  \<^verbatim>\<open>create_gradient_image.py\<close> and then fails in the grid construction: for width \<open>2.5\<close>
  and height \<open>10\<close>, \<^verbatim>\<open>validate_width_and_height\<close> returns and
  \<^verbatim>\<open>create_coordinate_grids\<close> raises the \<^verbatim>\<open>TypeError\<close> of \<^verbatim>\<open>np.linspace\<close>, which no
  handler of the function wraps.
\<close>

theorem coordinate_grids_float_width:
  "validate_width_and_height (PFloat (5 / 2)) (PInt 10) = Ok ()
   \<and> create_coordinate_grids (PFloat (5 / 2)) (PInt 10) =
       Raised (TypeError '''float' object cannot be interpreted as an integer'')"
  by (simp add: validate_width_and_height_def create_coordinate_grids_def np_linspace_def)

end
